theory Spec2Isabelle
  imports Complex_Main "HOL-Library.Log_Nat" "HOL-Library.Option_ord" "HOL-Library.Monad_Syntax"
begin

section \<open>JavaScript numbers\<close>

text \<open>
  The analytics code of \<^verbatim>\<open>src/server/routes.ts\<close> computes on JavaScript numbers, which are
  IEEE-754 binary64 values. A finite number is kept as \<open>Fin m e\<close>, standing for \<open>m * 2^e\<close>, in
  the canonical form produced by \<open>norm_double\<close>: \<open>m\<close> is odd, or the number is zero and is
  \<open>Fin 0 0\<close>. The two zeros of binary64 are not told apart (the code never divides by a
  zero and prints numbers as JSON, where both read \<open>0\<close>).
\<close>

datatype jsnum = NaN | PosInf | NegInf | Fin int int

function norm_double :: "int \<Rightarrow> int \<Rightarrow> jsnum" where
  "norm_double m e = (if m = 0 then Fin 0 0
     else if even m then norm_double (m div 2) (e + 1) else Fin m e)"
  by pat_completeness auto
termination
  by (relation "measure (\<lambda>(m, e). nat \<bar>m\<bar>)") auto

declare norm_double.simps [simp del]

text \<open>
  \<open>round_scaled p q k\<close> is the binary64 number nearest to the rational \<open>(p / q) * 2^k\<close>
  (for \<open>0 < q\<close>), ties to the even significand: \<open>e\<close> is the binary exponent of the value,
  \<open>2^s\<close> the spacing of the doubles around it (53 significant bits, subnormal below
  \<open>2^-1022\<close>), \<open>m\<close> the rounded significand, and a result of \<open>2^1024\<close> or more is an infinity.
\<close>

definition round_scaled :: "int \<Rightarrow> int \<Rightarrow> int \<Rightarrow> jsnum" where
  "round_scaled p q k = (if p = 0 then Fin 0 0 else
     (let a = \<bar>p\<bar>;
          d = bitlen a - bitlen q + k;
          e = (if q * 2 ^ nat (d - k) \<le> a * 2 ^ nat (k - d) then d else d - 1);
          e' = max e (- 1022);
          s = e' - 52;
          num = a * 2 ^ nat (k - s);
          den = q * 2 ^ nat (s - k);
          f = num div den;
          r = num mod den;
          m = (if 2 * r < den then f else if den < 2 * r then f + 1
               else if even f then f else f + 1)
      in if 1024 \<le> e' \<or> (e' = 1023 \<and> m = 2 ^ 53)
         then (if 0 < p then PosInf else NegInf)
         else norm_double (sgn p * m) s))"

definition js_of_int :: "int \<Rightarrow> jsnum" where
  "js_of_int n = round_scaled n 1 0"

text \<open>\<open>a + b\<close>, \<open>a / b\<close> and \<open>a * b\<close> on numbers: the exact result, rounded once.\<close>

fun dadd :: "jsnum \<Rightarrow> jsnum \<Rightarrow> jsnum" where
  "dadd NaN _ = NaN"
| "dadd _ NaN = NaN"
| "dadd PosInf NegInf = NaN"
| "dadd NegInf PosInf = NaN"
| "dadd PosInf _ = PosInf"
| "dadd NegInf _ = NegInf"
| "dadd _ PosInf = PosInf"
| "dadd _ NegInf = NegInf"
| "dadd (Fin m1 e1) (Fin m2 e2) =
     (let e = min e1 e2
      in round_scaled (m1 * 2 ^ nat (e1 - e) + m2 * 2 ^ nat (e2 - e)) 1 e)"

fun js_sign :: "jsnum \<Rightarrow> int" where
  "js_sign NaN = 0"
| "js_sign PosInf = 1"
| "js_sign NegInf = - 1"
| "js_sign (Fin m e) = (if m < 0 then - 1 else 1)"

definition signed_inf :: "int \<Rightarrow> jsnum" where
  "signed_inf s = (if 0 < s then PosInf else NegInf)"

fun ddiv :: "jsnum \<Rightarrow> jsnum \<Rightarrow> jsnum" where
  "ddiv NaN _ = NaN"
| "ddiv _ NaN = NaN"
| "ddiv (Fin m1 e1) (Fin m2 e2) =
     (if m2 = 0 then (if m1 = 0 then NaN else signed_inf m1)
      else round_scaled (m1 * sgn m2) \<bar>m2\<bar> (e1 - e2))"
| "ddiv (Fin m1 e1) b = Fin 0 0"
| "ddiv a (Fin m2 e2) = signed_inf (js_sign a * js_sign (Fin m2 e2))"
| "ddiv a b = NaN"

fun dmul :: "jsnum \<Rightarrow> jsnum \<Rightarrow> jsnum" where
  "dmul NaN _ = NaN"
| "dmul _ NaN = NaN"
| "dmul (Fin m1 e1) (Fin m2 e2) = round_scaled (m1 * m2) 1 (e1 + e2)"
| "dmul (Fin m1 e1) b = (if m1 = 0 then NaN else signed_inf (js_sign (Fin m1 e1) * js_sign b))"
| "dmul a (Fin m2 e2) = (if m2 = 0 then NaN else signed_inf (js_sign a * js_sign (Fin m2 e2)))"
| "dmul a b = signed_inf (js_sign a * js_sign b)"

text \<open>\<open>a > 0\<close>, and the truthiness of a number in \<open>a || b\<close>.\<close>

fun js_pos :: "jsnum \<Rightarrow> bool" where
  "js_pos PosInf = True"
| "js_pos (Fin m e) = (0 < m)"
| "js_pos _ = False"

fun js_truthy :: "jsnum \<Rightarrow> bool" where
  "js_truthy NaN = False"
| "js_truthy (Fin m e) = (m \<noteq> 0)"
| "js_truthy _ = True"

text \<open>
  \<open>Math.round\<close>: the integer \<open>floor (x + 1/2)\<close>, computed exactly (halves go up); \<open>NaN\<close> and
  the infinities are returned as they are.
\<close>

definition round_half_up :: "rat \<Rightarrow> int" where
  "round_half_up x = \<lfloor>x + 1 / 2\<rfloor>"

fun Math_round :: "jsnum \<Rightarrow> jsnum" where
  "Math_round (Fin m e) =
     (if 0 \<le> e then Fin m e
      else norm_double ((2 * m + 2 ^ nat (- e)) div 2 ^ nat (1 - e)) 0)"
| "Math_round x = x"

section \<open>Data model (\<^verbatim>\<open>src/shared/schema.ts\<close>)\<close>

text \<open>
  A \<^verbatim>\<open>timestamp\<close> is an instant in milliseconds since 1970-01-01T00:00Z, a \<^verbatim>\<open>date\<close> a
  calendar day counted in days since 1970-01-01. A column without \<^verbatim>\<open>notNull()\<close> is an
  option. The \<^verbatim>\<open>decimal(10, 2)\<close> column \<^verbatim>\<open>cost\<close> holds a number of hundredths, or the
  \<open>NaN\<close> of the store's numeric type. The \<^verbatim>\<open>id\<close> columns are \<open>license_id\<close>, \<open>vendor_id\<close>
  and \<open>team_id\<close>; the other columns of teams and vendors carry the table's name as a prefix.

  A string is the list of the bytes of its UTF-8 encoding, the form in which a request body
  arrives and in which the store keeps text: a character of ASCII is one byte below 128,
  any other character a lead byte from 194 to 244 followed by one to three continuation
  bytes from 128 to 191. So the letter U+00C9 is the two bytes C3 89, and the no-break
  space U+00A0 the two bytes C2 A0.
\<close>

type_synonym timestamp = int
type_synonym date = int

datatype pgnumeric = PgNaN | PgDec int

record Team =
  team_id :: string
  team_name :: string
  team_description :: "string option"
  team_createdAt :: "timestamp option"

record Vendor =
  vendor_id :: string
  vendor_name :: string
  vendor_website :: "string option"
  vendor_contactEmail :: "string option"
  vendor_createdAt :: "timestamp option"

record License =
  license_id :: string
  softwareName :: string
  vendorId :: string
  teamId :: string
  licenseType :: string
  totalSeats :: int
  usedSeats :: "int option"
  cost :: pgnumeric
  billingFrequency :: string
  purchaseDate :: date
  expiryDate :: "date option"
  contactPerson :: string
  description :: "string option"
  status :: "string option"
  createdAt :: "timestamp option"
  updatedAt :: "timestamp option"

text \<open>
  The relational store: its three tables, each a list of rows in the order the store keeps
  them. The store keeps \<open>license_id\<close>, \<open>vendor_id\<close>, \<open>team_id\<close>, \<open>vendor_name\<close> and
  \<open>team_name\<close> unique and the two references of a license resolved; an insert or update
  that would break this is refused with \<open>ConstraintViolation\<close>.
\<close>

record Store =
  teams :: "Team list"
  vendors :: "Vendor list"
  licenses :: "License list"

datatype error = ZodError | ConstraintViolation | DataException | RangeError | TypeError

text \<open>
  The response of a route is its status code and, when it has one, its JSON body, or a
  failure with its status code and message.
\<close>

datatype 'a response = Response nat "'a option" | Failure nat string

section \<open>Repository layer (\<^verbatim>\<open>DatabaseStorage\<close>, \<^verbatim>\<open>src/server/routes.ts\<close>)\<close>

subsection \<open>Vendors\<close>

text \<open>
  \<^verbatim>\<open>createVendor\<close> inserts one row; \<open>newId\<close> is what \<^verbatim>\<open>gen_random_uuid()\<close> draws and \<open>now\<close>
  the store's clock (\<^verbatim>\<open>defaultNow()\<close>).
\<close>

record InsertVendor =
  iv_name :: string
  iv_website :: "string option"
  iv_contactEmail :: "string option"

definition createVendor :: "string \<Rightarrow> timestamp \<Rightarrow> InsertVendor \<Rightarrow> Store \<Rightarrow> (error + Vendor) \<times> Store" where
  "createVendor newId now vendor s =
     (if newId \<in> vendor_id ` set (vendors s) \<or> iv_name vendor \<in> vendor_name ` set (vendors s)
      then (Inl ConstraintViolation, s)
      else (let newVendor = \<lparr>vendor_id = newId, vendor_name = iv_name vendor,
                              vendor_website = iv_website vendor,
                              vendor_contactEmail = iv_contactEmail vendor,
                              vendor_createdAt = Some now\<rparr>
            in (Inr newVendor, s\<lparr>vendors := vendors s @ [newVendor]\<rparr>)))"

text \<open>
  \<^verbatim>\<open>getOrCreateVendor\<close> awaits the store twice: the select, and (when the select found
  nothing) the insert of \<^verbatim>\<open>createVendor({ name })\<close>. The two halves are \<open>selectVendorByName\<close>
  and \<open>getOrCreateVendor_resume\<close>; run one after the other against the same store they are
  the whole call.
\<close>

definition selectVendorByName :: "string \<Rightarrow> Store \<Rightarrow> Vendor option" where
  "selectVendorByName name s =
     (case filter (\<lambda>v. vendor_name v = name) (vendors s) of
        [] \<Rightarrow> None
      | existingVendor # _ \<Rightarrow> Some existingVendor)"

definition getOrCreateVendor_resume ::
    "Vendor option \<Rightarrow> string \<Rightarrow> timestamp \<Rightarrow> string \<Rightarrow> Store \<Rightarrow> (error + Vendor) \<times> Store" where
  "getOrCreateVendor_resume found newId now name s =
     (case found of
        Some existingVendor \<Rightarrow> (Inr existingVendor, s)
      | None \<Rightarrow> createVendor newId now
                  \<lparr>iv_name = name, iv_website = None, iv_contactEmail = None\<rparr> s)"

definition getOrCreateVendor :: "string \<Rightarrow> timestamp \<Rightarrow> string \<Rightarrow> Store \<Rightarrow> (error + Vendor) \<times> Store" where
  "getOrCreateVendor newId now name s =
     getOrCreateVendor_resume (selectVendorByName name s) newId now name s"

text \<open>
  Two calls in flight at once, with the interleaving in which both selects are answered
  before either insert runs (each call holds its own select result while it waits).
\<close>

definition getOrCreateVendor_interleaved ::
    "string \<Rightarrow> string \<Rightarrow> timestamp \<Rightarrow> string \<Rightarrow> Store
       \<Rightarrow> (error + Vendor) \<times> (error + Vendor) \<times> Store" where
  "getOrCreateVendor_interleaved newId1 newId2 now name s =
     (let found1 = selectVendorByName name s;
          found2 = selectVendorByName name s;
          (r1, s1) = getOrCreateVendor_resume found1 newId1 now name s;
          (r2, s2) = getOrCreateVendor_resume found2 newId2 now name s1
      in (r1, r2, s2))"

subsection \<open>Reading licenses\<close>

text \<open>
  \<^verbatim>\<open>orderBy(desc(licenses.createdAt))\<close>: newest first, rows without a creation time before
  all others (the store's order of nulls under \<^verbatim>\<open>DESC\<close>); rows of equal creation time stay
  in table order.
\<close>

definition created_desc :: "License \<Rightarrow> int option" where
  "created_desc l = (case createdAt l of None \<Rightarrow> None | Some t \<Rightarrow> Some (- t))"

definition getAllLicenses :: "Store \<Rightarrow> License list" where
  "getAllLicenses s = sort_key created_desc (licenses s)"

definition getLicense :: "string \<Rightarrow> Store \<Rightarrow> License option" where
  "getLicense i s =
     (case filter (\<lambda>l. license_id l = i) (licenses s) of
        [] \<Rightarrow> None
      | license # _ \<Rightarrow> Some license)"

section \<open>Search (\<^verbatim>\<open>searchLicenses\<close>)\<close>

text \<open>
  The store's \<^verbatim>\<open>LIKE\<close>: in the pattern \<^verbatim>\<open>%\<close> stands for any run of characters, \<^verbatim>\<open>_\<close> for
  any one character (its first byte and the continuation bytes after it), and a backslash
  takes the character after it literally. (A pattern ending in a lone backslash is an error
  of the store; the patterns built here end in \<^verbatim>\<open>%\<close>.)
\<close>

definition is_continuation :: "char \<Rightarrow> bool" where
  "is_continuation c = (128 \<le> (of_char c :: int) \<and> (of_char c :: int) < 192)"

fun pg_like :: "string \<Rightarrow> string \<Rightarrow> bool" where
  "pg_like [] s = (s = [])"
| "pg_like (c # p) s =
     (if c = CHR ''%'' then list_ex (\<lambda>k. pg_like p (drop k s)) [0..<Suc (length s)]
      else if c = CHR ''_'' then
        (case s of [] \<Rightarrow> False | x # t \<Rightarrow> pg_like p (dropWhile is_continuation t))
      else if c = CHR 0x5C then
        (case p of
           [] \<Rightarrow> False
         | c' # p' \<Rightarrow> (case s of [] \<Rightarrow> False | x # t \<Rightarrow> x = c' \<and> pg_like p' t))
      else (case s of [] \<Rightarrow> False | x # t \<Rightarrow> x = c \<and> pg_like p t))"

record Filters =
  filter_search :: "string option"
  filter_teamId :: "string option"
  filter_vendorId :: "string option"
  filter_status :: "string option"

text \<open>\<^verbatim>\<open>if (filters.x)\<close>: a string counts when it is there and not empty.\<close>

definition given :: "string option \<Rightarrow> bool" where
  "given x = (case x of None \<Rightarrow> False | Some v \<Rightarrow> v \<noteq> [])"

definition search_condition :: "string \<Rightarrow> License \<Rightarrow> bool" where
  "search_condition v l = pg_like (''%'' @ v @ ''%'') (softwareName l)"

definition team_condition :: "string \<Rightarrow> License \<Rightarrow> bool" where
  "team_condition v l = (teamId l = v)"

definition vendor_condition :: "string \<Rightarrow> License \<Rightarrow> bool" where
  "vendor_condition v l = (vendorId l = v)"

definition status_condition :: "string \<Rightarrow> License \<Rightarrow> bool" where
  "status_condition v l = (status l = Some v)"

definition conditions :: "Filters \<Rightarrow> (License \<Rightarrow> bool) list" where
  "conditions filters =
     (if given (filter_search filters) then [search_condition (the (filter_search filters))] else [])
     @ (if given (filter_teamId filters) then [team_condition (the (filter_teamId filters))] else [])
     @ (if given (filter_vendorId filters) then [vendor_condition (the (filter_vendorId filters))] else [])
     @ (if given (filter_status filters) then [status_condition (the (filter_status filters))] else [])"

definition whereClause :: "Filters \<Rightarrow> (License \<Rightarrow> bool) option" where
  "whereClause filters =
     (if conditions filters \<noteq> [] then Some (\<lambda>l. list_all (\<lambda>c. c l) (conditions filters))
      else None)"

definition searchLicenses :: "Filters \<Rightarrow> Store \<Rightarrow> License list" where
  "searchLicenses filters s =
     sort_key created_desc
       (case whereClause filters of
          None \<Rightarrow> licenses s
        | Some w \<Rightarrow> filter w (licenses s))"

text \<open>The filters that keep one field of \<open>filters\<close> and leave the others out.\<close>

definition no_filters :: Filters where
  "no_filters = \<lparr>filter_search = None, filter_teamId = None, filter_vendorId = None,
                  filter_status = None\<rparr>"

definition only_search :: "Filters \<Rightarrow> Filters" where
  "only_search filters = no_filters\<lparr>filter_search := filter_search filters\<rparr>"

definition only_teamId :: "Filters \<Rightarrow> Filters" where
  "only_teamId filters = no_filters\<lparr>filter_teamId := filter_teamId filters\<rparr>"

definition only_vendorId :: "Filters \<Rightarrow> Filters" where
  "only_vendorId filters = no_filters\<lparr>filter_vendorId := filter_vendorId filters\<rparr>"

definition only_status :: "Filters \<Rightarrow> Filters" where
  "only_status filters = no_filters\<lparr>filter_status := filter_status filters\<rparr>"

text \<open>Newest first: \<open>a\<close> may stand before \<open>b\<close> in a list ordered by creation time descending.\<close>

definition not_older :: "License \<Rightarrow> License \<Rightarrow> bool" where
  "not_older a b =
     (case createdAt a of
        None \<Rightarrow> True
      | Some ta \<Rightarrow> (case createdAt b of None \<Rightarrow> False | Some tb \<Rightarrow> tb \<le> ta))"

section \<open>Analytics\<close>

subsection \<open>Expiring licenses\<close>

text \<open>
  The number of the day \<open>y-m-d\<close> of the civil calendar, counted from 1970-01-01; it serves
  to write dates down.
\<close>

definition days_from_civil :: "int \<Rightarrow> int \<Rightarrow> int \<Rightarrow> date" where
  "days_from_civil y m d =
     (let y' = (if m \<le> 2 then y - 1 else y);
          era = y' div 400;
          yoe = y' - era * 400;
          doy = (153 * (if 2 < m then m - 3 else m + 9) + 2) div 5 + d - 1;
          doe = yoe * 365 + yoe div 4 - yoe div 100 + doy
      in era * 146097 + doe - 719468)"

definition msPerDay :: int where
  "msPerDay = 86400000"

text \<open>
  A \<^verbatim>\<open>Date\<close> holds an instant of at most 8.64e15 ms either side of the epoch; past that it
  is an invalid date, and \<^verbatim>\<open>toISOString()\<close> of an invalid date throws a \<^verbatim>\<open>RangeError\<close>.
\<close>

definition valid_time :: "int \<Rightarrow> bool" where
  "valid_time t = (\<bar>t\<bar> \<le> 8640000000000000)"

text \<open>\<^verbatim>\<open>toISOString().split('T')[0]\<close>: the calendar day of an instant, in UTC.\<close>

definition utc_day :: "timestamp \<Rightarrow> date" where
  "utc_day t = t div msPerDay"

text \<open>
  The day is sent to the store as text, \<^verbatim>\<open>YYYY-MM-DD\<close> for the years 0000 to 9999 (outside
  them \<^verbatim>\<open>toISOString()\<close> writes a sign and six digits of year, and what the store makes of
  that text is left open: the properties below are stated for days of these years).
\<close>

definition iso_plain :: "date \<Rightarrow> bool" where
  "iso_plain d = (days_from_civil 0 1 1 \<le> d \<and> d \<le> days_from_civil 9999 12 31)"

text \<open>
  The server's clock: the instant that \<^verbatim>\<open>new Date()\<close> reads, and the time zone the server
  runs in, given by the offset of its local time from UTC, in milliseconds. \<open>offset_utc t\<close>
  is the offset in force at the instant \<open>t\<close>, and \<open>offset_local t\<close> the offset in force when
  the local clock shows \<open>t\<close> (\<^verbatim>\<open>LocalTZA(t, true)\<close> and \<^verbatim>\<open>LocalTZA(t, false)\<close> of the language
  specification). In a zone with daylight saving time the offset changes twice a year.
\<close>

record Clock =
  instant :: timestamp
  offset_utc :: "timestamp \<Rightarrow> int"
  offset_local :: "int \<Rightarrow> int"

definition LocalTime :: "Clock \<Rightarrow> timestamp \<Rightarrow> int" where
  "LocalTime clock t = t + offset_utc clock t"

definition UTC_time :: "Clock \<Rightarrow> int \<Rightarrow> timestamp" where
  "UTC_time clock t = t - offset_local clock t"

text \<open>
  \<^verbatim>\<open>futureDate.setDate(futureDate.getDate() + days)\<close>: \<^verbatim>\<open>getDate()\<close> is the day of the month
  of the local time, and \<^verbatim>\<open>setDate\<close> puts the local time on the day of the calendar that
  lies \<open>days\<close> days after it, at the same time of day, and turns the result back into an
  instant. Days of the calendar all have \<open>msPerDay\<close> milliseconds of local time.
\<close>

definition setDate_days_later :: "Clock \<Rightarrow> timestamp \<Rightarrow> int \<Rightarrow> timestamp" where
  "setDate_days_later clock t days = UTC_time clock (LocalTime clock t + days * msPerDay)"

text \<open>
  \<^verbatim>\<open>getExpiringLicenses(days)\<close>, at the clock \<open>now\<close> of the server (the two \<^verbatim>\<open>new Date()\<close> of
  the method read the same instant). Both callers pass a whole number of days. The two
  ends of the window are the days that \<^verbatim>\<open>toISOString()\<close> writes, which are days of UTC. The
  query has no \<^verbatim>\<open>orderBy\<close>: rows come in table order.
\<close>

definition expiring_condition :: "date \<Rightarrow> date \<Rightarrow> License \<Rightarrow> bool" where
  "expiring_condition today futureDate l =
     ((case expiryDate l of None \<Rightarrow> False | Some d \<Rightarrow> d \<le> futureDate \<and> today \<le> d)
      \<and> status l = Some ''active'')"

definition getExpiringLicenses :: "Clock \<Rightarrow> int \<Rightarrow> Store \<Rightarrow> error + License list" where
  "getExpiringLicenses now days s =
     (let futureDate = setDate_days_later now (instant now) days
      in if \<not> valid_time futureDate then Inl RangeError
         else Inr (filter (expiring_condition (utc_day (instant now)) (utc_day futureDate))
                     (licenses s)))"

subsection \<open>The \<^verbatim>\<open>days\<close> parameter of \<^verbatim>\<open>GET /api/analytics/expiring\<close>\<close>

text \<open>
  \<^verbatim>\<open>parseInt(req.query.days as string) || 30\<close>. \<^verbatim>\<open>parseInt\<close> turns its argument into a
  string (\<^verbatim>\<open>undefined\<close>, for an absent parameter, into \<^verbatim>\<open>"undefined"\<close>), skips leading white
  space, reads a sign, takes radix 16 after \<^verbatim>\<open>0x\<close> and radix 10 otherwise, and reads the
  longest run of digits: \<open>NaN\<close> when there is none, else the number nearest to the integer
  read.

  The white space that \<^verbatim>\<open>parseInt\<close> and \<^verbatim>\<open>parseFloat\<close> skip is that of the language: the
  characters U+0009 to U+000D and U+0020, and beyond ASCII U+00A0 (bytes C2 A0), U+1680
  (E1 9A 80), U+2000 to U+200A (E2 80 80 to E2 80 8A), U+2028, U+2029 and U+202F
  (E2 80 A8, E2 80 A9, E2 80 AF), U+205F (E2 81 9F), U+3000 (E3 80 80) and U+FEFF
  (EF BB BF). \<open>white_length\<close> is the number of bytes of the white-space character a string
  starts with, 0 when it starts with none; \<open>trim_start\<close> drops such characters as long as
  there is one.
\<close>

definition white_length :: "string \<Rightarrow> nat" where
  "white_length v =
     (let b = map (of_char :: char \<Rightarrow> int) (take 3 v)
      in if b \<noteq> [] \<and> (9 \<le> hd b \<and> hd b \<le> 13 \<or> hd b = 32) then 1
         else if take 2 b = [194, 160] then 2
         else if b = [225, 154, 128] then 3
         else if take 2 b = [226, 128] \<and> length b = 3
                 \<and> (128 \<le> b ! 2 \<and> b ! 2 \<le> 138 \<or> b ! 2 = 168 \<or> b ! 2 = 169 \<or> b ! 2 = 175)
           then 3
         else if b = [226, 129, 159] then 3
         else if b = [227, 128, 128] then 3
         else if b = [239, 187, 191] then 3
         else 0)"

function trim_start :: "string \<Rightarrow> string" where
  "trim_start v = (if white_length v = 0 then v else trim_start (drop (white_length v) v))"
  by pat_completeness auto
termination
proof (relation "measure length")
  show "wf (measure length)"
    by simp
next
  fix v :: string
  assume a: "white_length v \<noteq> 0"
  have "white_length [] = 0"
    by (simp add: white_length_def)
  with a have "v \<noteq> []"
    by auto
  with a show "(drop (white_length v) v, v) \<in> measure length"
    by simp
qed

declare trim_start.simps [simp del]

definition digit_value :: "char \<Rightarrow> int option" where
  "digit_value c =
     (let n = (of_char c :: int)
      in if 48 \<le> n \<and> n \<le> 57 then Some (n - 48)
         else if 97 \<le> n \<and> n \<le> 102 then Some (n - 87)
         else if 65 \<le> n \<and> n \<le> 70 then Some (n - 55)
         else None)"

definition is_digit_of :: "int \<Rightarrow> char \<Rightarrow> bool" where
  "is_digit_of radix c = (case digit_value c of None \<Rightarrow> False | Some v \<Rightarrow> v < radix)"

definition digits_value :: "int \<Rightarrow> string \<Rightarrow> int" where
  "digits_value radix z = foldl (\<lambda>n c. radix * n + the (digit_value c)) 0 z"

definition parseInt :: "string option \<Rightarrow> jsnum" where
  "parseInt input =
     (let inputString = (case input of None \<Rightarrow> ''undefined'' | Some v \<Rightarrow> v);
          S = trim_start inputString;
          sign = (if take 1 S = ''-'' then - 1 else 1);
          S1 = (if take 1 S = ''-'' \<or> take 1 S = ''+'' then drop 1 S else S);
          hex = (take 2 S1 = ''0x'' \<or> take 2 S1 = ''0X'');
          R = (if hex then 16 else 10);
          S2 = (if hex then drop 2 S1 else S1);
          Z = takeWhile (is_digit_of R) S2
      in if Z = [] then NaN else round_scaled (sign * digits_value R Z) 1 0)"

definition route_days :: "string option \<Rightarrow> jsnum" where
  "route_days q = (let n = parseInt q in if js_truthy n then n else js_of_int 30)"

text \<open>The whole number a finite number stands for, when it is one written without a fraction.\<close>

fun js_int :: "jsnum \<Rightarrow> int option" where
  "js_int (Fin m e) = (if 0 \<le> e then Some (m * 2 ^ nat e) else None)"
| "js_int _ = None"

definition get_expiring_route :: "Clock \<Rightarrow> string option \<Rightarrow> Store \<Rightarrow> License list response" where
  "get_expiring_route now q s =
     (case js_int (route_days q) of
        None \<Rightarrow> Failure 500 ''Failed to fetch expiring licenses''
      | Some days \<Rightarrow>
          (case getExpiringLicenses now days s of
             Inl err \<Rightarrow> Failure 500 ''Failed to fetch expiring licenses''
           | Inr ls \<Rightarrow> Response 200 (Some ls)))"

subsection \<open>Duplicates\<close>

text \<open>
  \<^verbatim>\<open>toLowerCase()\<close>. In a string of ASCII characters the letters \<^verbatim>\<open>A\<close> to \<^verbatim>\<open>Z\<close> become
  \<^verbatim>\<open>a\<close> to \<^verbatim>\<open>z\<close> and nothing else changes. For a string with other characters the result is
  the one that the case mapping of Unicode gives; that mapping is taken as given, as the
  function \<open>unicode_lower\<close> on strings, and everything that lower-cases a string takes it as
  its first argument.
\<close>

definition lower_char :: "char \<Rightarrow> char" where
  "lower_char c =
     (let n = (of_char c :: int) in if 65 \<le> n \<and> n \<le> 90 then char_of (n + 32) else c)"

definition is_ascii :: "char \<Rightarrow> bool" where
  "is_ascii c = ((of_char c :: int) < 128)"

definition toLowerCase :: "(string \<Rightarrow> string) \<Rightarrow> string \<Rightarrow> string" where
  "toLowerCase unicode_lower v =
     (if list_all is_ascii v then map lower_char v else unicode_lower v)"

text \<open>
  The accumulator of the \<^verbatim>\<open>reduce\<close> is the object \<^verbatim>\<open>{}\<close>, kept as the list of its own
  properties in the order they were created. An object \<^verbatim>\<open>{}\<close> inherits from
  \<^verbatim>\<open>Object.prototype\<close>; of the names it inherits, \<^verbatim>\<open>constructor\<close> and \<^verbatim>\<open>__proto__\<close> are
  the ones a lower-cased string can be. For them \<^verbatim>\<open>acc[softwareName]\<close> is the inherited
  value, which is truthy and has no \<^verbatim>\<open>push\<close>: the call throws a \<^verbatim>\<open>TypeError\<close>.
\<close>

definition inherited :: "string \<Rightarrow> bool" where
  "inherited k = (k = ''constructor'' \<or> k = ''__proto__'')"

definition push_to :: "string \<Rightarrow> License \<Rightarrow> (string \<times> License list) list \<Rightarrow> (string \<times> License list) list" where
  "push_to k license acc = map (\<lambda>(k', members). if k' = k then (k', members @ [license]) else (k', members)) acc"

fun groupedBySoftware ::
    "(string \<Rightarrow> string) \<Rightarrow> License list \<Rightarrow> (string \<times> License list) list
       \<Rightarrow> error + (string \<times> License list) list" where
  "groupedBySoftware unicode_lower [] acc = Inr acc"
| "groupedBySoftware unicode_lower (license # rest) acc =
     (let k = toLowerCase unicode_lower (softwareName license)
      in if k \<in> fst ` set acc then groupedBySoftware unicode_lower rest (push_to k license acc)
         else if inherited k then Inl TypeError
         else groupedBySoftware unicode_lower rest (push_to k license (acc @ [(k, [])])))"

text \<open>
  \<^verbatim>\<open>Object.entries\<close> lists the own properties of an object: first those whose name is an
  array index (the decimal form of an integer from 0 to 2^32 - 2), by ascending number,
  then the others in the order they were created.
\<close>

definition is_array_index :: "string \<Rightarrow> bool" where
  "is_array_index k =
     (k \<noteq> [] \<and> list_all (is_digit_of 10) k \<and> (length k = 1 \<or> take 1 k \<noteq> ''0'')
      \<and> digits_value 10 k < 4294967295)"

definition Object_entries :: "(string \<times> 'a) list \<Rightarrow> (string \<times> 'a) list" where
  "Object_entries obj =
     sort_key (\<lambda>(k, v). digits_value 10 k) (filter (\<lambda>(k, v). is_array_index k) obj)
     @ filter (\<lambda>(k, v). \<not> is_array_index k) obj"

definition getDuplicateLicenses ::
    "(string \<Rightarrow> string) \<Rightarrow> Store \<Rightarrow> error + (string \<times> License list) list" where
  "getDuplicateLicenses unicode_lower s =
     (case groupedBySoftware unicode_lower (getAllLicenses s) [] of
        Inl err \<Rightarrow> Inl err
      | Inr grouped \<Rightarrow>
          Inr (filter (\<lambda>(softwareName, licenses). 1 < length licenses) (Object_entries grouped)))"

subsection \<open>Metrics\<close>

text \<open>
  \<^verbatim>\<open>parseFloat(license.cost)\<close>: the store hands a \<^verbatim>\<open>decimal\<close> over as its decimal text, and
  \<^verbatim>\<open>parseFloat\<close> reads the number nearest to it.
\<close>

fun parseFloat_cost :: "pgnumeric \<Rightarrow> jsnum" where
  "parseFloat_cost PgNaN = NaN"
| "parseFloat_cost (PgDec c) = round_scaled c 100 0"

definition monthlyCost_step :: "jsnum \<Rightarrow> License \<Rightarrow> jsnum" where
  "monthlyCost_step tot license =
     (let cost = parseFloat_cost (cost license)
      in if billingFrequency license = ''monthly'' then dadd tot cost
         else if billingFrequency license = ''quarterly'' then dadd tot (ddiv cost (js_of_int 3))
         else if billingFrequency license = ''annually'' then dadd tot (ddiv cost (js_of_int 12))
         else tot)"

definition monthlyCost_of :: "License list \<Rightarrow> jsnum" where
  "monthlyCost_of allLicenses = Math_round (foldl monthlyCost_step (Fin 0 0) allLicenses)"

text \<open>\<^verbatim>\<open>license.usedSeats || 0\<close>: null and 0 both give 0.\<close>

definition usedSeats_or_0 :: "License \<Rightarrow> int" where
  "usedSeats_or_0 license =
     (case usedSeats license of None \<Rightarrow> 0 | Some u \<Rightarrow> if u = 0 then 0 else u)"

definition utilizationRate_of :: "License list \<Rightarrow> jsnum" where
  "utilizationRate_of allLicenses =
     (let totalSeats = foldl (\<lambda>tot license. dadd tot (js_of_int (totalSeats license)))
                         (Fin 0 0) allLicenses;
          usedSeats = foldl (\<lambda>tot license. dadd tot (js_of_int (usedSeats_or_0 license)))
                         (Fin 0 0) allLicenses
      in if js_pos totalSeats then Math_round (dmul (ddiv usedSeats totalSeats) (js_of_int 100))
         else Fin 0 0)"

record LicenseMetrics =
  totalLicenses :: nat
  monthlyCost :: jsnum
  expiringSoon :: nat
  utilizationRate :: jsnum

definition getLicenseMetrics :: "Clock \<Rightarrow> Store \<Rightarrow> error + LicenseMetrics" where
  "getLicenseMetrics now s =
     (let allLicenses = getAllLicenses s
      in case getExpiringLicenses now 30 s of
           Inl err \<Rightarrow> Inl err
         | Inr expiring \<Rightarrow>
             Inr \<lparr>totalLicenses = length allLicenses,
                  monthlyCost = monthlyCost_of allLicenses,
                  expiringSoon = length expiring,
                  utilizationRate = utilizationRate_of allLicenses\<rparr>)"

section \<open>Creating a license (\<^verbatim>\<open>POST /api/licenses\<close>)\<close>

subsection \<open>The request body and \<^verbatim>\<open>insertLicenseSchema\<close>\<close>

text \<open>
  A request body is a JSON object: for each key its value, if it has one. The schema is the
  insert schema of the table without \<^verbatim>\<open>id\<close>, \<^verbatim>\<open>createdAt\<close>, \<^verbatim>\<open>updatedAt\<close>, \<^verbatim>\<open>status\<close> and
  \<^verbatim>\<open>usedSeats\<close>, with \<^verbatim>\<open>cost\<close> and \<^verbatim>\<open>totalSeats\<close> read as strings and transformed by
  \<^verbatim>\<open>parseFloat\<close> and \<^verbatim>\<open>parseInt\<close>. A column that is \<^verbatim>\<open>notNull()\<close> is required, the others may be
  absent or null; a key the schema does not name is dropped from the parsed value.
\<close>

datatype json = JNull | JBool bool | JNum jsnum | JStr string | JArr "json list"
  | JObj "(string \<times> json) list"

type_synonym body = "string \<Rightarrow> json option"

record InsertLicense =
  il_softwareName :: string
  il_vendorId :: string
  il_teamId :: string
  il_licenseType :: string
  il_totalSeats :: jsnum
  il_cost :: jsnum
  il_billingFrequency :: string
  il_purchaseDate :: string
  il_expiryDate :: "string option"
  il_contactPerson :: string
  il_description :: "string option"

definition required_string :: "body \<Rightarrow> string \<Rightarrow> string option" where
  "required_string b k = (case b k of Some (JStr v) \<Rightarrow> Some v | _ \<Rightarrow> None)"

definition optional_string :: "body \<Rightarrow> string \<Rightarrow> string option option" where
  "optional_string b k =
     (case b k of
        None \<Rightarrow> Some None
      | Some JNull \<Rightarrow> Some None
      | Some (JStr v) \<Rightarrow> Some (Some v)
      | _ \<Rightarrow> None)"

text \<open>
  \<^verbatim>\<open>parseFloat\<close> of a string: leading white space is skipped, then the longest prefix that is
  a decimal literal (a sign, then \<^verbatim>\<open>Infinity\<close> or digits with an optional fraction and an
  optional exponent) is read, as the number nearest to its value; \<open>NaN\<close> when there is no such
  prefix.
\<close>

definition exponent_part :: "string \<Rightarrow> int" where
  "exponent_part r =
     (if take 1 r = ''e'' \<or> take 1 r = ''E'' then
        (let r1 = drop 1 r;
             sign = (if take 1 r1 = ''-'' then - 1 else 1);
             r2 = (if take 1 r1 = ''-'' \<or> take 1 r1 = ''+'' then drop 1 r1 else r1)
         in sign * digits_value 10 (takeWhile (is_digit_of 10) r2))
      else 0)"

definition parseFloat :: "string \<Rightarrow> jsnum" where
  "parseFloat inputString =
     (let S = trim_start inputString;
          sign = (if take 1 S = ''-'' then - 1 else 1);
          S1 = (if take 1 S = ''-'' \<or> take 1 S = ''+'' then drop 1 S else S);
          intDigits = takeWhile (is_digit_of 10) S1;
          S2 = dropWhile (is_digit_of 10) S1;
          fracDigits = (if take 1 S2 = ''.'' then takeWhile (is_digit_of 10) (drop 1 S2) else []);
          S3 = (if take 1 S2 = ''.'' then dropWhile (is_digit_of 10) (drop 1 S2) else S2);
          x = exponent_part S3 - int (length fracDigits);
          n = sign * digits_value 10 (intDigits @ fracDigits)
      in if take 8 S1 = ''Infinity'' then signed_inf sign
         else if intDigits = [] \<and> fracDigits = [] then NaN
         else if 0 \<le> x then round_scaled (n * 10 ^ nat x) 1 0
         else round_scaled n (10 ^ nat (- x)) 0)"

definition insertLicenseSchema_parse :: "body \<Rightarrow> error + InsertLicense" where
  "insertLicenseSchema_parse b =
     (case do {
        softwareName \<leftarrow> required_string b ''softwareName'';
        vendorId \<leftarrow> required_string b ''vendorId'';
        teamId \<leftarrow> required_string b ''teamId'';
        licenseType \<leftarrow> required_string b ''licenseType'';
        totalSeats \<leftarrow> required_string b ''totalSeats'';
        cost \<leftarrow> required_string b ''cost'';
        billingFrequency \<leftarrow> required_string b ''billingFrequency'';
        purchaseDate \<leftarrow> required_string b ''purchaseDate'';
        expiryDate \<leftarrow> optional_string b ''expiryDate'';
        contactPerson \<leftarrow> required_string b ''contactPerson'';
        description \<leftarrow> optional_string b ''description'';
        Some \<lparr>il_softwareName = softwareName, il_vendorId = vendorId, il_teamId = teamId,
              il_licenseType = licenseType, il_totalSeats = parseInt (Some totalSeats),
              il_cost = parseFloat cost, il_billingFrequency = billingFrequency,
              il_purchaseDate = purchaseDate, il_expiryDate = expiryDate,
              il_contactPerson = contactPerson, il_description = description\<rparr>
      } of
        None \<Rightarrow> Inl ZodError
      | Some licenseData \<Rightarrow> Inr licenseData)"

subsection \<open>\<^verbatim>\<open>license.cost.toString()\<close> and the \<^verbatim>\<open>decimal(10, 2)\<close> column\<close>

text \<open>
  \<^verbatim>\<open>toString()\<close> of a number writes the decimal numeral with the fewest significant digits
  that reads back as the same number, and of those the one nearest to it. \<open>TextDecimal s u\<close>
  is the numeral of value \<open>s * 10^u\<close> (the store reads plain and exponent notation alike).
\<close>

datatype numtext = TextNaN | TextInfinity | TextDecimal int int

function ndigits :: "int \<Rightarrow> int" where
  "ndigits n = (if n < 10 then 1 else 1 + ndigits (n div 10))"
  by pat_completeness auto
termination
  by (relation "measure nat") auto

declare ndigits.simps [simp del]

function first_scale :: "int \<Rightarrow> int \<Rightarrow> nat \<Rightarrow> nat" where
  "first_scale p q j = (if p \<le> 0 \<or> q \<le> p * 10 ^ j then j else first_scale p q (Suc j))"
  by pat_completeness auto
termination
proof (relation "measure (\<lambda>(p, q, j). nat (q - p * 10 ^ j))")
  show "wf (measure (\<lambda>(p, q, j). nat (q - p * 10 ^ j)))"
    by simp
next
  fix p q :: int and j :: nat
  assume a: "\<not> (p \<le> 0 \<or> q \<le> p * 10 ^ j)"
  then have "p * 10 ^ j < p * 10 ^ Suc j"
    by simp
  with a show "((p, q, Suc j), (p, q, j)) \<in> measure (\<lambda>(p, q, j). nat (q - p * 10 ^ j))"
    by simp
qed

declare first_scale.simps [simp del]

text \<open>The \<open>n\<close> with \<open>10^(n-1) \<le> p / q < 10^n\<close>, for a positive \<open>p / q\<close>.\<close>

definition decimal_exponent :: "int \<Rightarrow> int \<Rightarrow> int" where
  "decimal_exponent p q =
     (if q \<le> p then ndigits (p div q) else 1 - int (first_scale p q 1))"

definition reads_as :: "int \<Rightarrow> int \<Rightarrow> int \<Rightarrow> int \<Rightarrow> bool" where
  "reads_as m e s u =
     ((if 0 \<le> u then round_scaled (s * 10 ^ nat u) 1 0 else round_scaled s (10 ^ nat (- u)) 0)
      = Fin m e)"

text \<open>
  The digits \<open>s\<close> and the exponent \<open>u\<close> of the numeral for the positive number \<open>m * 2^e\<close>: with
  \<open>k\<close> significant digits the two numerals next to the number are \<open>lo * 10^u\<close> and
  \<open>(lo + 1) * 10^u\<close>; the first \<open>k\<close> for which one of them reads back is taken.
\<close>

definition digits_at :: "int \<Rightarrow> int \<Rightarrow> int \<Rightarrow> int \<times> int" where
  "digits_at p q u =
     (if 0 \<le> u then (p, q * 10 ^ nat u) else (p * 10 ^ nat (- u), q))"

definition shortest_digits :: "int \<Rightarrow> int \<Rightarrow> int \<times> int" where
  "shortest_digits m e =
     (let p = m * 2 ^ nat e;
          q = 2 ^ nat (- e);
          n = decimal_exponent p q;
          hit = (\<lambda>k. case digits_at p q (n - int k) of (num, den) \<Rightarrow>
                   reads_as m e (num div den) (n - int k)
                   \<or> reads_as m e (num div den + 1) (n - int k));
          k = (case List.find hit [1..<18] of None \<Rightarrow> 17 | Some k \<Rightarrow> k);
          u = n - int k
      in case digits_at p q u of (num, den) \<Rightarrow>
           (let lo = num div den;
                r = num mod den
            in if \<not> reads_as m e (lo + 1) u then (lo, u)
               else if \<not> reads_as m e lo u then (lo + 1, u)
               else if 2 * r < den then (lo, u)
               else if den < 2 * r then (lo + 1, u)
               else if even lo then (lo, u) else (lo + 1, u)))"

fun Number_toString :: "jsnum \<Rightarrow> numtext" where
  "Number_toString NaN = TextNaN"
| "Number_toString PosInf = TextInfinity"
| "Number_toString NegInf = TextInfinity"
| "Number_toString (Fin m e) =
     (if m = 0 then TextDecimal 0 0
      else case shortest_digits \<bar>m\<bar> e of (s, u) \<Rightarrow> TextDecimal (sgn m * s) u)"

text \<open>
  What the store makes of a numeral written into the \<^verbatim>\<open>decimal(10, 2)\<close> column: it keeps
  \<open>NaN\<close>, refuses an infinity, rounds a number to two decimal places (halves away from zero)
  and refuses it when the result does not fit ten digits.
\<close>

fun numeric_10_2 :: "numtext \<Rightarrow> error + pgnumeric" where
  "numeric_10_2 TextNaN = Inr PgNaN"
| "numeric_10_2 TextInfinity = Inl DataException"
| "numeric_10_2 (TextDecimal s u) =
     (let cents = (if 0 \<le> u + 2 then s * 10 ^ nat (u + 2)
                   else sgn s * ((2 * \<bar>s\<bar> + 10 ^ nat (- u - 2)) div (2 * 10 ^ nat (- u - 2))))
      in if 10 ^ 10 \<le> \<bar>cents\<bar> then Inl DataException else Inr (PgDec cents))"

text \<open>
  The decimal value of a cost string, rounded to two places without passing through a
  binary number: the digits of the literal that \<^verbatim>\<open>parseFloat\<close> reads, taken exactly.
\<close>

definition decimal_cents :: "string \<Rightarrow> int option" where
  "decimal_cents inputString =
     (let S = trim_start inputString;
          sign = (if take 1 S = ''-'' then - 1 else 1);
          S1 = (if take 1 S = ''-'' \<or> take 1 S = ''+'' then drop 1 S else S);
          intDigits = takeWhile (is_digit_of 10) S1;
          S2 = dropWhile (is_digit_of 10) S1;
          fracDigits = (if take 1 S2 = ''.'' then takeWhile (is_digit_of 10) (drop 1 S2) else []);
          S3 = (if take 1 S2 = ''.'' then dropWhile (is_digit_of 10) (drop 1 S2) else S2);
          x = exponent_part S3 - int (length fracDigits);
          n = digits_value 10 (intDigits @ fracDigits)
      in if intDigits = [] \<and> fracDigits = [] then None
         else if 0 \<le> x + 2 then Some (sign * n * 10 ^ nat (x + 2))
         else Some (sign * ((2 * n + 10 ^ nat (- x - 2)) div (2 * 10 ^ nat (- x - 2)))))"

subsection \<open>\<^verbatim>\<open>createLicense\<close> and the route\<close>

text \<open>
  Two things the store's driver does are taken as given: \<open>date_in\<close>, the store's reading of
  a date written as text (\<open>None\<close> when it refuses the text), and \<open>text_of\<close>, the text the
  driver sends for a \<^verbatim>\<open>vendorName\<close> that is not a JSON string (\<open>None\<close> when the call fails).
\<close>

record Driver =
  date_in :: "string \<Rightarrow> date option"
  text_of :: "json option \<Rightarrow> string option"

text \<open>
  The insert: \<^verbatim>\<open>id\<close>, \<^verbatim>\<open>usedSeats\<close>, \<^verbatim>\<open>status\<close>, \<^verbatim>\<open>createdAt\<close> and \<^verbatim>\<open>updatedAt\<close> are not among
  the values and take the defaults of the table (\<^verbatim>\<open>gen_random_uuid()\<close>, \<^verbatim>\<open>0\<close>, \<^verbatim>\<open>"active"\<close>,
  \<^verbatim>\<open>defaultNow()\<close>). \<^verbatim>\<open>totalSeats\<close> goes into an \<^verbatim>\<open>integer\<close> column, which holds the whole
  numbers from \<open>-2^31\<close> to \<open>2^31 - 1\<close>.
\<close>

definition int4 :: "jsnum \<Rightarrow> int option" where
  "int4 n = (case js_int n of
               None \<Rightarrow> None
             | Some v \<Rightarrow> if - (2 ^ 31) \<le> v \<and> v < 2 ^ 31 then Some v else None)"

definition createLicense ::
    "Driver \<Rightarrow> string \<Rightarrow> timestamp \<Rightarrow> InsertLicense \<Rightarrow> Store \<Rightarrow> (error + License) \<times> Store" where
  "createLicense drv newId now license s =
     (case (numeric_10_2 (Number_toString (il_cost license)),
            int4 (il_totalSeats license),
            date_in drv (il_purchaseDate license),
            map_option (date_in drv) (il_expiryDate license)) of
        (Inr cost', Some totalSeats', Some purchaseDate', expiryDate') \<Rightarrow>
          if expiryDate' = Some None then (Inl DataException, s)
          else if newId \<in> license_id ` set (licenses s)
                  \<or> il_vendorId license \<notin> vendor_id ` set (vendors s)
                  \<or> il_teamId license \<notin> team_id ` set (teams s)
          then (Inl ConstraintViolation, s)
          else (let newLicense =
                      \<lparr>license_id = newId, softwareName = il_softwareName license,
                       vendorId = il_vendorId license, teamId = il_teamId license,
                       licenseType = il_licenseType license, totalSeats = totalSeats',
                       usedSeats = Some 0, cost = cost',
                       billingFrequency = il_billingFrequency license,
                       purchaseDate = purchaseDate',
                       expiryDate = (case expiryDate' of None \<Rightarrow> None | Some d \<Rightarrow> d),
                       contactPerson = il_contactPerson license,
                       description = il_description license, status = Some ''active'',
                       createdAt = Some now, updatedAt = Some now\<rparr>
                in (Inr newLicense, s\<lparr>licenses := licenses s @ [newLicense]\<rparr>))
      | _ \<Rightarrow> (Inl DataException, s))"

definition vendorName_of :: "Driver \<Rightarrow> body \<Rightarrow> string option" where
  "vendorName_of drv b =
     (case b ''vendorName'' of Some (JStr v) \<Rightarrow> Some v | other \<Rightarrow> text_of drv other)"

text \<open>
  \<^verbatim>\<open>app.post("/api/licenses", ...)\<close>. \<open>vendorNewId\<close> and \<open>licenseNewId\<close> are the ids the store
  would draw for a new vendor and a new license, \<open>now\<close> its clock.
\<close>

definition post_licenses_route ::
    "Driver \<Rightarrow> string \<Rightarrow> string \<Rightarrow> timestamp \<Rightarrow> body \<Rightarrow> Store \<Rightarrow> License response \<times> Store" where
  "post_licenses_route drv vendorNewId licenseNewId now b s =
     (case insertLicenseSchema_parse b of
        Inl err \<Rightarrow> (Failure 400 ''Invalid license data'', s)
      | Inr licenseData \<Rightarrow>
          (case vendorName_of drv b of
             None \<Rightarrow> (Failure 500 ''Failed to create license'', s)
           | Some vendorName \<Rightarrow>
               (case getOrCreateVendor vendorNewId now vendorName s of
                  (Inl err, s1) \<Rightarrow> (Failure 500 ''Failed to create license'', s1)
                | (Inr vendor, s1) \<Rightarrow>
                    (case createLicense drv licenseNewId now
                            (licenseData\<lparr>il_vendorId := vendor_id vendor\<rparr>) s1 of
                       (Inl err, s2) \<Rightarrow> (Failure 500 ''Failed to create license'', s2)
                     | (Inr license, s2) \<Rightarrow> (Response 201 (Some license), s2)))))"

section \<open>Updating a license (\<^verbatim>\<open>PUT /api/licenses/:id\<close>)\<close>

text \<open>
  \<^verbatim>\<open>Partial<License>\<close>: every field may be supplied or left out (\<open>None\<close>); a nullable
  column may be supplied as null (\<open>Some None\<close>). The two seat counts are supplied as
  numbers and the cost as the numeral of its text (\<open>'n\<close> and \<open>'c\<close> are \<open>jsnum\<close> and
  \<open>numtext\<close>). The store reads them into the types of its columns, as it does on an insert:
  a seat count has to be a whole number from \<open>-2^31\<close> to \<open>2^31 - 1\<close>, and the cost is rounded
  to two places and has to fit ten digits (then \<open>'n\<close> and \<open>'c\<close> are \<open>int\<close> and \<open>pgnumeric\<close>).
  The store reads the values of a statement before it runs it on the rows; a value it
  refuses makes the statement fail, whether a row has the id or not.
\<close>

record ('n, 'c) LicensePatch =
  set_id :: "string option"
  set_softwareName :: "string option"
  set_vendorId :: "string option"
  set_teamId :: "string option"
  set_licenseType :: "string option"
  set_totalSeats :: "'n option"
  set_usedSeats :: "'n option option"
  set_cost :: "'c option"
  set_billingFrequency :: "string option"
  set_purchaseDate :: "date option"
  set_expiryDate :: "date option option"
  set_contactPerson :: "string option"
  set_description :: "string option option"
  set_status :: "string option option"
  set_createdAt :: "timestamp option option"
  set_updatedAt :: "timestamp option option"

definition store_values ::
    "(jsnum, numtext) LicensePatch \<Rightarrow> (int, pgnumeric) LicensePatch option" where
  "store_values license =
     do {
       totalSeats' \<leftarrow> (case set_totalSeats license of
                         None \<Rightarrow> Some None
                       | Some n \<Rightarrow> map_option Some (int4 n));
       usedSeats' \<leftarrow> (case set_usedSeats license of
                        None \<Rightarrow> Some None
                      | Some None \<Rightarrow> Some (Some None)
                      | Some (Some n) \<Rightarrow> map_option (\<lambda>v. Some (Some v)) (int4 n));
       cost' \<leftarrow> (case set_cost license of
                   None \<Rightarrow> Some None
                 | Some t \<Rightarrow> (case numeric_10_2 t of Inl err \<Rightarrow> None | Inr c \<Rightarrow> Some (Some c)));
       Some \<lparr>set_id = set_id license, set_softwareName = set_softwareName license,
             set_vendorId = set_vendorId license, set_teamId = set_teamId license,
             set_licenseType = set_licenseType license, set_totalSeats = totalSeats',
             set_usedSeats = usedSeats', set_cost = cost',
             set_billingFrequency = set_billingFrequency license,
             set_purchaseDate = set_purchaseDate license,
             set_expiryDate = set_expiryDate license,
             set_contactPerson = set_contactPerson license,
             set_description = set_description license, set_status = set_status license,
             set_createdAt = set_createdAt license, set_updatedAt = set_updatedAt license\<rparr>
     }"

definition supplied :: "'a option \<Rightarrow> 'a \<Rightarrow> 'a" where
  "supplied new old = (case new of None \<Rightarrow> old | Some v \<Rightarrow> v)"

text \<open>\<^verbatim>\<open>.set({ ...license, updatedAt: new Date() })\<close> on one row.\<close>

definition apply_set :: "(int, pgnumeric) LicensePatch \<Rightarrow> timestamp \<Rightarrow> License \<Rightarrow> License" where
  "apply_set p now l =
     \<lparr>license_id = supplied (set_id p) (license_id l),
      softwareName = supplied (set_softwareName p) (softwareName l),
      vendorId = supplied (set_vendorId p) (vendorId l),
      teamId = supplied (set_teamId p) (teamId l),
      licenseType = supplied (set_licenseType p) (licenseType l),
      totalSeats = supplied (set_totalSeats p) (totalSeats l),
      usedSeats = supplied (set_usedSeats p) (usedSeats l),
      cost = supplied (set_cost p) (cost l),
      billingFrequency = supplied (set_billingFrequency p) (billingFrequency l),
      purchaseDate = supplied (set_purchaseDate p) (purchaseDate l),
      expiryDate = supplied (set_expiryDate p) (expiryDate l),
      contactPerson = supplied (set_contactPerson p) (contactPerson l),
      description = supplied (set_description p) (description l),
      status = supplied (set_status p) (status l),
      createdAt = supplied (set_createdAt p) (createdAt l),
      updatedAt = Some now\<rparr>"

text \<open>
  What the store refuses of an updated row: an id another row holds, a vendor or team that
  does not exist.
\<close>

definition update_refused :: "Store \<Rightarrow> License \<Rightarrow> License \<Rightarrow> bool" where
  "update_refused s old new =
     ((license_id new \<noteq> license_id old \<and> license_id new \<in> license_id ` set (licenses s))
      \<or> (vendorId new \<noteq> vendorId old \<and> vendorId new \<notin> vendor_id ` set (vendors s))
      \<or> (teamId new \<noteq> teamId old \<and> teamId new \<notin> team_id ` set (teams s)))"

text \<open>
  \<^verbatim>\<open>updateLicense\<close>: \<^verbatim>\<open>const [updatedLicense] = await db.update(...).returning()\<close>. When
  no row has the id, the statement updates nothing, \<^verbatim>\<open>returning()\<close> is the empty array and
  \<^verbatim>\<open>updatedLicense\<close> is \<^verbatim>\<open>undefined\<close>: the result \<open>Inr None\<close>. Nothing is thrown. When a
  row has the id, the store writes the new version of the row behind the rows of the table,
  which is where a query without \<^verbatim>\<open>orderBy\<close> then finds it.
\<close>

definition updateLicense ::
    "timestamp \<Rightarrow> string \<Rightarrow> (jsnum, numtext) LicensePatch \<Rightarrow> Store
       \<Rightarrow> (error + License option) \<times> Store" where
  "updateLicense now i license s =
     (case store_values license of
        None \<Rightarrow> (Inl DataException, s)
      | Some values \<Rightarrow>
          (case getLicense i s of
             None \<Rightarrow> (Inr None, s)
           | Some old \<Rightarrow>
               (let updatedLicense = apply_set values now old
                in if update_refused s old updatedLicense then (Inl ConstraintViolation, s)
                   else (Inr (Some updatedLicense),
                         s\<lparr>licenses := filter (\<lambda>l. license_id l \<noteq> i) (licenses s)
                                          @ [updatedLicense]\<rparr>))))"

text \<open>
  The two routes on one license. A response is its status code and, when it has one, its
  JSON body: \<^verbatim>\<open>res.json(undefined)\<close> sends status 200 with no body.
\<close>

definition get_license_route :: "string \<Rightarrow> Store \<Rightarrow> License response" where
  "get_license_route i s =
     (case getLicense i s of
        None \<Rightarrow> Failure 404 ''License not found''
      | Some license \<Rightarrow> Response 200 (Some license))"

definition put_license_route ::
    "timestamp \<Rightarrow> string \<Rightarrow> (jsnum, numtext) LicensePatch \<Rightarrow> Store \<Rightarrow> License response \<times> Store" where
  "put_license_route now i body s =
     (case updateLicense now i body s of
        (Inl err, s') \<Rightarrow> (Failure 500 ''Failed to update license'', s')
      | (Inr license, s') \<Rightarrow> (Response 200 license, s'))"

section \<open>Reference definitions and test data\<close>

text \<open>What a license has to satisfy to pass all the conditions of a search.\<close>

definition matches :: "Filters \<Rightarrow> License \<Rightarrow> bool" where
  "matches f l = list_all (\<lambda>c. c l) (conditions f)"

text \<open>A search text without the characters that \<^verbatim>\<open>LIKE\<close> reads as wildcards or escapes.\<close>

definition plain_text :: "string \<Rightarrow> bool" where
  "plain_text v = (CHR ''%'' \<notin> set v \<and> CHR ''_'' \<notin> set v \<and> CHR 0x5C \<notin> set v)"

text \<open>
  The substring match of the specification: the text \<open>v\<close> occurs in the name \<open>n\<close>, that is,
  \<open>n\<close> is \<open>v\<close> with something before it and something after it.
\<close>

fun occurs_in :: "string \<Rightarrow> string \<Rightarrow> bool" where
  "occurs_in v [] = (v = [])"
| "occurs_in v (c # n) = (take (length v) (c # n) = v \<or> occurs_in v n)"

text \<open>
  The window of \<^verbatim>\<open>getExpiringLicenses\<close> as the specification words it: the status is
  \<^verbatim>\<open>"active"\<close> and the expiry date lies in \<open>[today, today + days]\<close>, both ends included. The
  specification takes for today the calendar date of the server's local time, \<open>local_day\<close>.
  \<open>expires_within\<close> is the same with the two ends of the window given as dates.
\<close>

definition in_window :: "date \<Rightarrow> int \<Rightarrow> License \<Rightarrow> bool" where
  "in_window today days l =
     (status l = Some ''active''
      \<and> (case expiryDate l of None \<Rightarrow> False | Some d \<Rightarrow> today \<le> d \<and> d \<le> today + days))"

definition expires_within :: "date \<Rightarrow> date \<Rightarrow> License \<Rightarrow> bool" where
  "expires_within lo hi l =
     (status l = Some ''active''
      \<and> (case expiryDate l of None \<Rightarrow> False | Some d \<Rightarrow> lo \<le> d \<and> d \<le> hi))"

definition local_day :: "Clock \<Rightarrow> date" where
  "local_day clock = LocalTime clock (instant clock) div msPerDay"

text \<open>Rows to try the operations on.\<close>

definition example_license :: License where
  "example_license =
     \<lparr>license_id = ''L1'', softwareName = ''Zoom'', vendorId = ''V1'', teamId = ''T1'',
      licenseType = ''subscription'', totalSeats = 10, usedSeats = Some 10, cost = PgDec 12000,
      billingFrequency = ''monthly'', purchaseDate = days_from_civil 2023 6 1,
      expiryDate = Some (days_from_civil 2024 1 15), contactPerson = ''Ada'',
      description = None, status = Some ''active'', createdAt = Some 1700000000000,
      updatedAt = Some 1700000000000\<rparr>"

definition example_team :: Team where
  "example_team = \<lparr>team_id = ''T1'', team_name = ''Platform'', team_description = None,
                    team_createdAt = Some 1600000000000\<rparr>"

definition example_vendor :: Vendor where
  "example_vendor = \<lparr>vendor_id = ''V1'', vendor_name = ''Zoom Inc'', vendor_website = None,
                      vendor_contactEmail = None, vendor_createdAt = Some 1600000000000\<rparr>"

definition example_store :: "License list \<Rightarrow> Store" where
  "example_store ls = \<lparr>teams = [example_team], vendors = [example_vendor], licenses = ls\<rparr>"

definition empty_patch :: "(jsnum, numtext) LicensePatch" where
  "empty_patch = \<lparr>set_id = None, set_softwareName = None, set_vendorId = None, set_teamId = None,
     set_licenseType = None, set_totalSeats = None, set_usedSeats = None, set_cost = None,
     set_billingFrequency = None, set_purchaseDate = None, set_expiryDate = None,
     set_contactPerson = None, set_description = None, set_status = None,
     set_createdAt = None, set_updatedAt = None\<rparr>"

definition no_values :: "(int, pgnumeric) LicensePatch" where
  "no_values = \<lparr>set_id = None, set_softwareName = None, set_vendorId = None, set_teamId = None,
     set_licenseType = None, set_totalSeats = None, set_usedSeats = None, set_cost = None,
     set_billingFrequency = None, set_purchaseDate = None, set_expiryDate = None,
     set_contactPerson = None, set_description = None, set_status = None,
     set_createdAt = None, set_updatedAt = None\<rparr>"

definition example_expiring :: "License list" where
  "example_expiring =
     [example_license,
      example_license\<lparr>license_id := ''L2'', expiryDate := Some (days_from_civil 2024 3 1)\<rparr>,
      example_license\<lparr>license_id := ''L3'', expiryDate := Some (days_from_civil 2024 1 10),
                       status := Some ''cancelled''\<rparr>]"

text \<open>
  Two clocks: noon of 2024-01-01 on a server that runs in UTC, and a server in a zone that
  is five hours behind UTC until 2024-03-10, 02:00 local time (07:00 UTC), and four hours
  behind UTC from then on, as the east of North America is in the spring of 2024.
\<close>

definition example_now :: Clock where
  "example_now = \<lparr>instant = days_from_civil 2024 1 1 * msPerDay + 43200000,
                   offset_utc = (\<lambda>t. 0), offset_local = (\<lambda>t. 0)\<rparr>"

definition eastern_2024 :: "timestamp \<Rightarrow> Clock" where
  "eastern_2024 t =
     \<lparr>instant = t,
      offset_utc = (\<lambda>t. if t < 1710054000000 then - 18000000 else - 14400000),
      offset_local = (\<lambda>t. if t < 1710036000000 then - 18000000 else - 14400000)\<rparr>"

definition expiring_on :: "string \<Rightarrow> date \<Rightarrow> License" where
  "expiring_on i d = example_license\<lparr>license_id := i, expiryDate := Some d\<rparr>"

definition no_rows :: Store where
  "no_rows = \<lparr>teams = [], vendors = [], licenses = []\<rparr>"

definition acme :: "string \<Rightarrow> Vendor" where
  "acme i = \<lparr>vendor_id = i, vendor_name = ''Acme'', vendor_website = None,
             vendor_contactEmail = None, vendor_createdAt = Some 1700000000000\<rparr>"

text \<open>
  The monthly cost as the specification words it, for comparison: the monthly equivalent of
  each license in numbers (\<open>monthly_equivalent\<close>, added up by \<open>js_sum\<close> from 0 in list order)
  and in exact arithmetic (\<open>monthly_equivalent_exact\<close>, \<open>monthlyCost_exact\<close>). A license
  is \<open>recurring\<close> when its billing frequency is one of the three that are counted.
\<close>

definition js_sum :: "jsnum list \<Rightarrow> jsnum" where
  "js_sum xs = foldl dadd (Fin 0 0) xs"

definition recurring :: "License \<Rightarrow> bool" where
  "recurring l = (billingFrequency l = ''monthly'' \<or> billingFrequency l = ''quarterly''
                  \<or> billingFrequency l = ''annually'')"

definition monthly_equivalent :: "License \<Rightarrow> jsnum" where
  "monthly_equivalent l =
     (if billingFrequency l = ''monthly'' then parseFloat_cost (cost l)
      else if billingFrequency l = ''quarterly'' then ddiv (parseFloat_cost (cost l)) (js_of_int 3)
      else if billingFrequency l = ''annually'' then ddiv (parseFloat_cost (cost l)) (js_of_int 12)
      else Fin 0 0)"

fun cost_value :: "pgnumeric \<Rightarrow> rat" where
  "cost_value (PgDec c) = of_int c / 100"
| "cost_value PgNaN = 0"

definition monthly_equivalent_exact :: "License \<Rightarrow> rat" where
  "monthly_equivalent_exact l =
     (if billingFrequency l = ''monthly'' then cost_value (cost l)
      else if billingFrequency l = ''quarterly'' then cost_value (cost l) / 3
      else if billingFrequency l = ''annually'' then cost_value (cost l) / 12
      else 0)"

definition monthlyCost_exact :: "License list \<Rightarrow> int" where
  "monthlyCost_exact ls = round_half_up (sum_list (map monthly_equivalent_exact ls))"

text \<open>The utilization rate as the specification words it, in exact arithmetic.\<close>

definition used_or_zero :: "License \<Rightarrow> int" where
  "used_or_zero l = (case usedSeats l of None \<Rightarrow> 0 | Some u \<Rightarrow> u)"

definition utilizationRate_exact :: "License list \<Rightarrow> int" where
  "utilizationRate_exact ls =
     (let total = sum_list (map totalSeats ls); used = sum_list (map used_or_zero ls)
      in if total = 0 then 0 else round_half_up (of_int used / of_int total * 100))"

text \<open>
  The duplicate groups as the specification words them (\<open>duplicates_first_seen\<close>: group keys
  in the order they are first seen) and as \<^verbatim>\<open>Object.entries\<close> lists them
  (\<open>duplicate_groups\<close>); \<open>u\<close> is the case mapping of Unicode, as for \<open>toLowerCase\<close>.
\<close>

definition group_key :: "(string \<Rightarrow> string) \<Rightarrow> License \<Rightarrow> string" where
  "group_key u l = toLowerCase u (softwareName l)"

fun first_seen :: "'a list \<Rightarrow> 'a list" where
  "first_seen [] = []"
| "first_seen (x # xs) = x # filter (\<lambda>y. y \<noteq> x) (first_seen xs)"

definition members :: "(string \<Rightarrow> string) \<Rightarrow> License list \<Rightarrow> string \<Rightarrow> License list" where
  "members u ls k = [l \<leftarrow> ls. group_key u l = k]"

definition grouping :: "(string \<Rightarrow> string) \<Rightarrow> License list \<Rightarrow> (string \<times> License list) list" where
  "grouping u ls = map (\<lambda>k. (k, members u ls k)) (first_seen (map (group_key u) ls))"

definition entries_order :: "string list \<Rightarrow> string list" where
  "entries_order ks =
     sort_key (digits_value 10) (filter is_array_index ks) @ filter (\<lambda>k. \<not> is_array_index k) ks"

definition duplicate_groups ::
    "(string \<Rightarrow> string) \<Rightarrow> License list \<Rightarrow> (string \<times> License list) list" where
  "duplicate_groups u ls =
     map (\<lambda>k. (k, members u ls k))
       (filter (\<lambda>k. 1 < length (members u ls k))
          (entries_order (first_seen (map (group_key u) ls))))"

definition duplicates_first_seen ::
    "(string \<Rightarrow> string) \<Rightarrow> License list \<Rightarrow> (string \<times> License list) list" where
  "duplicates_first_seen u ls =
     map (\<lambda>k. (k, members u ls k))
       (filter (\<lambda>k. 1 < length (members u ls k)) (first_seen (map (group_key u) ls)))"

text \<open>More rows, request bodies and a driver to try the operations on.\<close>

definition priced :: "string \<Rightarrow> int \<Rightarrow> string \<Rightarrow> License" where
  "priced i c f = example_license\<lparr>license_id := i, cost := PgDec c, billingFrequency := f\<rparr>"

definition seated :: "string \<Rightarrow> int \<Rightarrow> int \<Rightarrow> License" where
  "seated i u t = example_license\<lparr>license_id := i, usedSeats := Some u, totalSeats := t\<rparr>"

definition example_metrics :: "License list" where
  "example_metrics =
     [example_license\<lparr>license_id := ''L1'', cost := PgDec 12000, billingFrequency := ''monthly'',
                      usedSeats := Some 10, totalSeats := 10, createdAt := Some 1700000000002\<rparr>,
      example_license\<lparr>license_id := ''L2'', cost := PgDec 30000, billingFrequency := ''quarterly'',
                      usedSeats := Some 5, totalSeats := 10, createdAt := Some 1700000000001\<rparr>]"

definition named :: "string \<Rightarrow> string \<Rightarrow> int \<Rightarrow> License" where
  "named i n t = example_license\<lparr>license_id := i, softwareName := n, createdAt := Some t\<rparr>"

definition filed :: "string \<Rightarrow> string \<Rightarrow> string \<Rightarrow> string \<Rightarrow> int \<Rightarrow> License" where
  "filed i n t st c =
     example_license\<lparr>license_id := i, softwareName := n, teamId := t, status := Some st,
                     createdAt := Some c\<rparr>"

definition example_search :: "License list" where
  "example_search =
     [filed ''L1'' ''Zoom'' ''T1'' ''active'' 1700000000001,
      filed ''L2'' ''Slack'' ''T2'' ''active'' 1700000000003,
      filed ''L3'' ''Figma'' ''T1'' ''cancelled'' 1700000000002,
      filed ''L4'' ''Zoom'' ''T1'' ''active'' 1700000000004]"

definition active_in_T1 :: Filters where
  "active_in_T1 = \<lparr>filter_search = None, filter_teamId = Some ''T1'', filter_vendorId = None,
                    filter_status = Some ''active''\<rparr>"

definition example_names :: "License list" where
  "example_names = [named ''L1'' ''Zoom'' 1700000000003, named ''L2'' ''zoom'' 1700000000002,
                    named ''L3'' ''Slack'' 1700000000001]"

definition example_numbers :: "License list" where
  "example_numbers = [named ''L1'' ''Zoom'' 1700000000004, named ''L2'' ''zoom'' 1700000000003,
                      named ''L3'' ''2048'' 1700000000002, named ''L4'' ''2048'' 1700000000001]"

text \<open>
  The case mapping of Unicode on the characters up to U+00FF, for the examples: beyond the
  letters of ASCII it takes U+00C0 to U+00DE, without the sign U+00D7, to U+00E0 to U+00FE
  (the bytes C3 80 to C3 9E to the bytes C3 A0 to C3 BE). \<open>Emile\<close> and \<open>emile\<close> are the
  name with the initial U+00C9 and with the initial U+00E9.
\<close>

fun latin1_lower :: "string \<Rightarrow> string" where
  "latin1_lower [] = []"
| "latin1_lower [c] = [lower_char c]"
| "latin1_lower (c # d # v) =
     (if c = CHR 0xC3 \<and> 128 \<le> (of_char d :: int) \<and> (of_char d :: int) \<le> 158
         \<and> (of_char d :: int) \<noteq> 151
      then c # char_of ((of_char d :: int) + 32) # latin1_lower v
      else lower_char c # latin1_lower (d # v))"

definition Emile :: string where
  "Emile = [CHR 0xC3, CHR 0x89] @ ''mile''"

definition emile :: string where
  "emile = [CHR 0xC3, CHR 0xA9] @ ''mile''"

definition iso_date_in :: "string \<Rightarrow> date option" where
  "iso_date_in v =
     (if length v = 10 \<and> take 1 (drop 4 v) = ''-'' \<and> take 1 (drop 7 v) = ''-''
         \<and> list_all (is_digit_of 10) (take 4 v @ take 2 (drop 5 v) @ drop 8 v)
      then (let y = digits_value 10 (take 4 v);
                m = digits_value 10 (take 2 (drop 5 v));
                d = digits_value 10 (drop 8 v)
            in if 1 \<le> m \<and> m \<le> 12 \<and> 1 \<le> d \<and> d \<le> 31 then Some (days_from_civil y m d)
               else None)
      else None)"

definition example_driver :: Driver where
  "example_driver = \<lparr>date_in = iso_date_in, text_of = (\<lambda>v. None)\<rparr>"

definition example_fields :: "string \<Rightarrow> (string \<times> json) list" where
  "example_fields c =
     [(''softwareName'', JStr ''Slack''), (''vendorName'', JStr ''Zoom Inc''),
      (''vendorId'', JStr ''unused''), (''teamId'', JStr ''T1''),
      (''licenseType'', JStr ''subscription''), (''totalSeats'', JStr ''25''),
      (''cost'', JStr c), (''billingFrequency'', JStr ''monthly''),
      (''purchaseDate'', JStr ''2024-01-01''), (''contactPerson'', JStr ''Ada'')]"

definition example_created :: "int \<Rightarrow> License" where
  "example_created c =
     \<lparr>license_id = ''L9'', softwareName = ''Slack'', vendorId = ''V1'', teamId = ''T1'',
      licenseType = ''subscription'', totalSeats = 25, usedSeats = Some 0, cost = PgDec c,
      billingFrequency = ''monthly'', purchaseDate = days_from_civil 2024 1 1,
      expiryDate = None, contactPerson = ''Ada'', description = None,
      status = Some ''active'', createdAt = Some 1700000000000,
      updatedAt = Some 1700000000000\<rparr>"

section \<open>Properties\<close>

subsection \<open>Numbers\<close>

text \<open>
  Known values of binary64 arithmetic, computed by the definitions: the double of 0.1 is
  \<open>3602879701896397 * 2^-55\<close>; \<open>0.1 + 0.2\<close> is written \<open>0.30000000000000004\<close>; \<open>2^53 + 1\<close>
  rounds to \<open>2^53\<close>; \<open>Math.round(-2.5)\<close> is \<open>-2\<close>.
\<close>

lemma double_examples:
  "parseFloat ''0.1'' = Fin 3602879701896397 (- 55)"
  "Number_toString (dadd (parseFloat ''0.1'') (parseFloat ''0.2'')) = TextDecimal 30000000000000004 (- 17)"
  "js_of_int (2 ^ 53 + 1) = Fin 1 53"
  "Math_round (parseFloat ''-2.5'') = js_of_int (- 2)"
  by code_simp+

text \<open>
  \<^verbatim>\<open>parseFloat\<close> and \<^verbatim>\<open>parseInt\<close> on strings of several kinds: white space in front (a
  space, a tab and a line feed, the no-break space U+00A0, the byte order mark U+FEFF and the
  line separator U+2028), a fraction without an integer part, an exponent, text after the
  number, no number at all, and a hexadecimal numeral, which only \<^verbatim>\<open>parseInt\<close> reads.
\<close>

lemma parse_examples:
  "parseFloat '' 12.5'' = parseFloat ''12.5''"
  "parseFloat ([CHR 0x09, CHR 0x0A] @ ''12.5'') = parseFloat ''12.5''"
  "parseFloat ([CHR 0xC2, CHR 0xA0] @ ''12.5'') = parseFloat ''12.5''"
  "parseFloat ([CHR 0xEF, CHR 0xBB, CHR 0xBF, CHR 0xE2, CHR 0x80, CHR 0xA8] @ ''12.5'')
     = parseFloat ''12.5''"
  "parseFloat ''12.5'' = Fin 25 (- 1)"
  "parseFloat ''.5'' = Fin 1 (- 1)"
  "parseFloat ''1e3'' = js_of_int 1000"
  "parseFloat ''12abc'' = js_of_int 12"
  "parseFloat ''abc'' = NaN"
  "parseFloat ''-Infinity'' = NegInf"
  "parseFloat ''0x10'' = Fin 0 0"
  "parseInt (Some ''0x10'') = js_of_int 16"
  "parseInt (Some ([CHR 0xC2, CHR 0xA0] @ ''42px'')) = js_of_int 42"
  "parseInt (Some ''12.9'') = js_of_int 12"
  by code_simp+

subsection \<open>\<^verbatim>\<open>updateLicense\<close>\<close>

lemma store_values_empty_patch: "store_values empty_patch = Some no_values"
  by (simp add: store_values_def empty_patch_def no_values_def)

lemma updateLicense_unknown:
  "store_values p = Some v \<Longrightarrow> getLicense i s = None \<Longrightarrow> updateLicense now i p s = (Inr None, s)"
  by (simp add: updateLicense_def)

lemma updateLicense_known:
  "store_values p = Some v \<Longrightarrow> getLicense i s = Some old \<Longrightarrow>
   \<not> update_refused s old (apply_set v now old) \<Longrightarrow>
   updateLicense now i p s =
     (Inr (Some (apply_set v now old)),
      s\<lparr>licenses := filter (\<lambda>l. license_id l \<noteq> i) (licenses s) @ [apply_set v now old]\<rparr>)"
  by (simp add: updateLicense_def Let_def)

lemma store_values_fields:
  assumes "store_values p = Some v"
  shows "set_status v = set_status p" "set_softwareName v = set_softwareName p"
    "set_createdAt v = set_createdAt p" "set_cost p = None \<Longrightarrow> set_cost v = None"
    "set_totalSeats p = None \<Longrightarrow> set_totalSeats v = None"
    "set_usedSeats p = None \<Longrightarrow> set_usedSeats v = None"
  using assms by (auto simp: store_values_def split: bind_splits option.splits)

text \<open>
  \<^verbatim>\<open>updateLicense\<close> on an id that exists, when the store accepts the values and the new
  row: the row with the supplied fields set, the others as they were and \<^verbatim>\<open>updatedAt\<close> set
  to now is stored instead of the old one and returned in full.
\<close>

theorem updateLicense_existing:
  "store_values p = Some v \<longrightarrow> getLicense i s = Some old \<longrightarrow>
   \<not> update_refused s old (apply_set v now old) \<longrightarrow>
     updateLicense now i p s =
       (Inr (Some (apply_set v now old)),
        s\<lparr>licenses := filter (\<lambda>l. license_id l \<noteq> i) (licenses s) @ [apply_set v now old]\<rparr>)
     \<and> updatedAt (apply_set v now old) = Some now
     \<and> status (apply_set v now old) = supplied (set_status p) (status old)
     \<and> softwareName (apply_set v now old) = supplied (set_softwareName p) (softwareName old)
     \<and> createdAt (apply_set v now old) = supplied (set_createdAt p) (createdAt old)
     \<and> (set_cost p = None \<longrightarrow> cost (apply_set v now old) = cost old)
     \<and> (set_totalSeats p = None \<longrightarrow> totalSeats (apply_set v now old) = totalSeats old)
     \<and> (set_usedSeats p = None \<longrightarrow> usedSeats (apply_set v now old) = usedSeats old)"
proof (intro impI)
  assume v: "store_values p = Some v" and g: "getLicense i s = Some old"
    and r: "\<not> update_refused s old (apply_set v now old)"
  have u: "updateLicense now i p s =
       (Inr (Some (apply_set v now old)),
        s\<lparr>licenses := filter (\<lambda>l. license_id l \<noteq> i) (licenses s) @ [apply_set v now old]\<rparr>)"
    using v g r by (rule updateLicense_known)
  have f: "updatedAt (apply_set v now old) = Some now"
    "status (apply_set v now old) = supplied (set_status p) (status old)"
    "softwareName (apply_set v now old) = supplied (set_softwareName p) (softwareName old)"
    "createdAt (apply_set v now old) = supplied (set_createdAt p) (createdAt old)"
    "set_cost p = None \<longrightarrow> cost (apply_set v now old) = cost old"
    "set_totalSeats p = None \<longrightarrow> totalSeats (apply_set v now old) = totalSeats old"
    "set_usedSeats p = None \<longrightarrow> usedSeats (apply_set v now old) = usedSeats old"
    using store_values_fields [OF v] by (simp_all add: apply_set_def supplied_def)
  from u f show "updateLicense now i p s =
       (Inr (Some (apply_set v now old)),
        s\<lparr>licenses := filter (\<lambda>l. license_id l \<noteq> i) (licenses s) @ [apply_set v now old]\<rparr>)
     \<and> updatedAt (apply_set v now old) = Some now
     \<and> status (apply_set v now old) = supplied (set_status p) (status old)
     \<and> softwareName (apply_set v now old) = supplied (set_softwareName p) (softwareName old)
     \<and> createdAt (apply_set v now old) = supplied (set_createdAt p) (createdAt old)
     \<and> (set_cost p = None \<longrightarrow> cost (apply_set v now old) = cost old)
     \<and> (set_totalSeats p = None \<longrightarrow> totalSeats (apply_set v now old) = totalSeats old)
     \<and> (set_usedSeats p = None \<longrightarrow> usedSeats (apply_set v now old) = usedSeats old)"
    by (intro conjI)
qed

theorem updateLicense_existing_witness:
  "updateLicense 1700000100000 ''L1'' (empty_patch\<lparr>set_status := Some (Some ''cancelled'')\<rparr>)
     (example_store [example_license])
   = (Inr (Some (example_license\<lparr>status := Some ''cancelled'', updatedAt := Some 1700000100000\<rparr>)),
      example_store [example_license\<lparr>status := Some ''cancelled'',
                                      updatedAt := Some 1700000100000\<rparr>])"
proof -
  have v: "store_values (empty_patch\<lparr>set_status := Some (Some ''cancelled'')\<rparr>)
             = Some (no_values\<lparr>set_status := Some (Some ''cancelled'')\<rparr>)"
    by (simp add: store_values_def empty_patch_def no_values_def)
  have g: "getLicense ''L1'' (example_store [example_license]) = Some example_license"
    by code_simp
  have r: "\<not> update_refused (example_store [example_license]) example_license
     (apply_set (no_values\<lparr>set_status := Some (Some ''cancelled'')\<rparr>) 1700000100000
        example_license)"
    by code_simp
  have e: "(Inr (Some (apply_set (no_values\<lparr>set_status := Some (Some ''cancelled'')\<rparr>)
                  1700000100000 example_license)),
        (example_store [example_license])\<lparr>licenses :=
          filter (\<lambda>l. license_id l \<noteq> ''L1'') (licenses (example_store [example_license]))
          @ [apply_set (no_values\<lparr>set_status := Some (Some ''cancelled'')\<rparr>)
               1700000100000 example_license]\<rparr>)
      = (Inr (Some (example_license\<lparr>status := Some ''cancelled'',
                                     updatedAt := Some 1700000100000\<rparr>)) :: error + License option,
         example_store [example_license\<lparr>status := Some ''cancelled'',
                                      updatedAt := Some 1700000100000\<rparr>])"
    by code_simp
  have u: "updateLicense 1700000100000 ''L1'' (empty_patch\<lparr>set_status := Some (Some ''cancelled'')\<rparr>)
     (example_store [example_license])
    = (Inr (Some (apply_set (no_values\<lparr>set_status := Some (Some ''cancelled'')\<rparr>)
                  1700000100000 example_license)),
        (example_store [example_license])\<lparr>licenses :=
          filter (\<lambda>l. license_id l \<noteq> ''L1'') (licenses (example_store [example_license]))
          @ [apply_set (no_values\<lparr>set_status := Some (Some ''cancelled'')\<rparr>)
               1700000100000 example_license]\<rparr>)"
    using updateLicense_existing [of "empty_patch\<lparr>set_status := Some (Some ''cancelled'')\<rparr>"
      "no_values\<lparr>set_status := Some (Some ''cancelled'')\<rparr>" "''L1''"
      "example_store [example_license]" example_license 1700000100000,
      THEN mp, OF v, THEN mp, OF g, THEN mp, OF r]
    by (rule conjunct1)
  from u e show ?thesis by (rule trans)
qed

text \<open>
  Values the store refuses: a seat count of \<open>2^31\<close>, and a cost of ten digits before the
  point. The call fails with the store's error and changes nothing, also when no license has
  the id.
\<close>

lemma updateLicense_refused_values:
  "updateLicense 1700000100000 ''L1'' (empty_patch\<lparr>set_totalSeats := Some (js_of_int (2 ^ 31))\<rparr>)
     (example_store [example_license]) = (Inl DataException, example_store [example_license])"
  "updateLicense 1700000100000 ''missing''
     (empty_patch\<lparr>set_cost := Some (TextDecimal 12345678901 0)\<rparr>)
     (example_store [example_license]) = (Inl DataException, example_store [example_license])"
  "updateLicense 1700000100000 ''L1'' (empty_patch\<lparr>set_cost := Some (TextDecimal 12345 (- 3))\<rparr>)
     (example_store [example_license])
   = (Inr (Some (example_license\<lparr>cost := PgDec 1235, updatedAt := Some 1700000100000\<rparr>)),
      example_store [example_license\<lparr>cost := PgDec 1235, updatedAt := Some 1700000100000\<rparr>])"
  by code_simp+

text \<open>
  C1. \<^verbatim>\<open>updateLicense(id, partialData)\<close> is specified to fail with \<^verbatim>\<open>NotFound\<close> when no license
  has the id. Here it is run on a store that has no license \<^verbatim>\<open>missing\<close>: it returns
  \<^verbatim>\<open>undefined\<close> (\<open>Inr None\<close>) and leaves the store as it was, and the route
  \<^verbatim>\<open>PUT /api/licenses/:id\<close> answers 200 with no body, where
  \<^verbatim>\<open>GET /api/licenses/:id\<close> answers 404 for the same id.
\<close>

theorem updateLicense_unknown_id:
  "updateLicense 1700000100000 ''missing'' empty_patch (example_store [example_license])
     = (Inr None, example_store [example_license])
   \<and> put_license_route 1700000100000 ''missing'' empty_patch (example_store [example_license])
     = (Response 200 None, example_store [example_license])
   \<and> get_license_route ''missing'' (example_store [example_license])
     = Failure 404 ''License not found''"
proof -
  have g: "getLicense ''missing'' (example_store [example_license]) = None"
    by code_simp
  show ?thesis
    by (simp add: put_license_route_def get_license_route_def
        updateLicense_unknown [OF store_values_empty_patch g] g)
qed

subsection \<open>\<^verbatim>\<open>searchLicenses\<close>\<close>

lemma conditions_list_all:
  "list_all (\<lambda>c. c l) (conditions f) =
     ((given (filter_search f) \<longrightarrow> search_condition (the (filter_search f)) l)
      \<and> (given (filter_teamId f) \<longrightarrow> team_condition (the (filter_teamId f)) l)
      \<and> (given (filter_vendorId f) \<longrightarrow> vendor_condition (the (filter_vendorId f)) l)
      \<and> (given (filter_status f) \<longrightarrow> status_condition (the (filter_status f)) l))"
  by (simp add: conditions_def)

lemma searchLicenses_filter: "searchLicenses f s = filter (matches f) (getAllLicenses s)"
proof (cases "conditions f = []")
  case True
  then show ?thesis
    by (simp add: searchLicenses_def whereClause_def getAllLicenses_def matches_def)
next
  case False
  then show ?thesis
    by (simp add: searchLicenses_def whereClause_def getAllLicenses_def matches_def [abs_def] filter_sort)
qed

lemma given_None [simp]: "\<not> given None"
  by (simp add: given_def)

lemma matches_only:
  "matches (only_search f) l = (given (filter_search f) \<longrightarrow> search_condition (the (filter_search f)) l)"
  "matches (only_teamId f) l = (given (filter_teamId f) \<longrightarrow> team_condition (the (filter_teamId f)) l)"
  "matches (only_vendorId f) l = (given (filter_vendorId f) \<longrightarrow> vendor_condition (the (filter_vendorId f)) l)"
  "matches (only_status f) l = (given (filter_status f) \<longrightarrow> status_condition (the (filter_status f)) l)"
  by (simp_all add: matches_def conditions_list_all only_search_def only_teamId_def
      only_vendorId_def only_status_def no_filters_def)

lemma matches_split:
  "matches f l = (matches (only_search f) l \<and> matches (only_teamId f) l
     \<and> matches (only_vendorId f) l \<and> matches (only_status f) l)"
  by (simp add: matches_only) (simp add: matches_def conditions_list_all)

lemma matches_no_filters: "matches no_filters l"
  by (simp add: matches_def conditions_list_all no_filters_def)

lemma created_desc_le: "created_desc a \<le> created_desc b \<longleftrightarrow> not_older a b"
  by (simp add: created_desc_def not_older_def split: option.splits)

lemma sorted_getAllLicenses: "sorted_wrt not_older (getAllLicenses s)"
proof -
  have "sorted (map created_desc (sort_key created_desc (licenses s)))"
    by (rule sorted_sort_key)
  then show ?thesis
    by (simp add: getAllLicenses_def sorted_map created_desc_le)
qed

text \<open>
  The text predicate is the store's \<^verbatim>\<open>LIKE\<close> on \<^verbatim>\<open>%search%\<close>: for a search text without
  \<^verbatim>\<open>%\<close>, \<^verbatim>\<open>_\<close> and backslash it holds exactly when the text occurs in the software name.
\<close>

lemma pg_like_percent: "pg_like (CHR ''%'' # p) s = (\<exists>k\<le>length s. pg_like p (drop k s))"
proof -
  have "set [0..<Suc (length s)] = {k. k \<le> length s}"
    by (auto simp del: upt_Suc)
  then show ?thesis
    by (simp add: list_ex_iff del: upt_Suc)
qed

lemma pg_like_plain:
  "plain_text v \<Longrightarrow> pg_like (v @ p) s = (\<exists>t. s = v @ t \<and> pg_like p t)"
proof (induction v arbitrary: s)
  case Nil
  then show ?case by simp
next
  case (Cons c v)
  then have c: "c \<noteq> CHR ''%''" "c \<noteq> CHR ''_''" "c \<noteq> CHR 0x5C" and v: "plain_text v"
    by (auto simp: plain_text_def)
  show ?case
    using c Cons.IH [OF v] by (cases s) auto
qed

lemma pg_like_any: "pg_like ''%'' t"
  by (simp add: list_ex_iff)

lemma pg_like_substring:
  "plain_text v \<Longrightarrow> pg_like (''%'' @ v @ ''%'') n = (\<exists>pre post. n = pre @ v @ post)"
proof -
  assume v: "plain_text v"
  have "pg_like (''%'' @ v @ ''%'') n = (\<exists>k\<le>length n. \<exists>t. drop k n = v @ t)"
    using pg_like_plain [OF v, of "''%''"] pg_like_any
    by (simp add: pg_like_percent del: pg_like.simps)
  also have "\<dots> = (\<exists>pre post. n = pre @ v @ post)"
  proof
    assume "\<exists>k\<le>length n. \<exists>t. drop k n = v @ t"
    then obtain k t where "drop k n = v @ t" by blast
    then have "n = take k n @ v @ t"
      by (metis append_take_drop_id)
    then show "\<exists>pre post. n = pre @ v @ post" by blast
  next
    assume "\<exists>pre post. n = pre @ v @ post"
    then obtain pre post where e: "n = pre @ v @ post" by blast
    then have "drop (length pre) n = v @ post" by simp
    moreover have "length pre \<le> length n" using e by simp
    ultimately show "\<exists>k\<le>length n. \<exists>t. drop k n = v @ t" by blast
  qed
  finally show ?thesis .
qed

lemma occurs_in_iff: "occurs_in v n = (\<exists>pre post. n = pre @ v @ post)"
proof (induction n)
  case Nil
  then show ?case by auto
next
  case (Cons c n)
  have p: "(take (length v) (c # n) = v) = (\<exists>post. c # n = v @ post)"
  proof
    assume "take (length v) (c # n) = v"
    then have "c # n = v @ drop (length v) (c # n)"
      by (metis append_take_drop_id)
    then show "\<exists>post. c # n = v @ post" ..
  next
    assume "\<exists>post. c # n = v @ post"
    then obtain post where "c # n = v @ post" ..
    then show "take (length v) (c # n) = v" by simp
  qed
  have "(\<exists>pre post. c # n = pre @ v @ post)
          = ((\<exists>post. c # n = v @ post) \<or> (\<exists>pre post. n = pre @ v @ post))"
  proof
    assume "\<exists>pre post. c # n = pre @ v @ post"
    then obtain pre post where e: "c # n = pre @ v @ post" by blast
    show "(\<exists>post. c # n = v @ post) \<or> (\<exists>pre post. n = pre @ v @ post)"
    proof (cases pre)
      case Nil
      with e show ?thesis by auto
    next
      case (Cons x pre')
      with e have "n = pre' @ v @ post" by simp
      then show ?thesis by blast
    qed
  next
    assume "(\<exists>post. c # n = v @ post) \<or> (\<exists>pre post. n = pre @ v @ post)"
    then show "\<exists>pre post. c # n = pre @ v @ post"
    proof
      assume "\<exists>post. c # n = v @ post"
      then obtain post where "c # n = [] @ v @ post" by auto
      then show ?thesis by blast
    next
      assume "\<exists>pre post. n = pre @ v @ post"
      then obtain pre post where "n = pre @ v @ post" by blast
      then have "c # n = (c # pre) @ v @ post" by simp
      then show ?thesis by blast
    qed
  qed
  with p Cons.IH show ?case by simp
qed

lemma search_condition_substring:
  "plain_text v \<Longrightarrow> search_condition v l = occurs_in v (softwareName l)"
  unfolding search_condition_def occurs_in_iff by (rule pg_like_substring)

lemma set_getAllLicenses:
  "set (getAllLicenses s) = set (licenses s)" "length (getAllLicenses s) = length (licenses s)"
  by (simp_all add: getAllLicenses_def)

text \<open>
  C3, as amended. \<^verbatim>\<open>searchLicenses(filters)\<close> composes its optional predicates with AND:
  for every store and every combination of filters the result is the list of all licenses
  (the rows of the table, newest first, as \<^verbatim>\<open>getAllLicenses()\<close> returns them) cut down to
  the rows that satisfy each predicate whose filter is there and not the empty string: the
  software name matches the \<^verbatim>\<open>LIKE\<close> pattern \<^verbatim>\<open>%search%\<close>, the team id is the given one, the
  vendor id is the given one, the status is the given one. So the result is the rows that
  each of the four single-filter searches returns, as a set the intersection of the
  single-filter results; with no filter it is the same list as \<^verbatim>\<open>getAllLicenses()\<close>; and
  it is ordered by creation time, newest first. The match on the name is a substring match
  for a search text without \<^verbatim>\<open>%\<close>, \<^verbatim>\<open>_\<close> and backslash. The witness is a search for the
  active licenses of a team, as in the specification.
\<close>

theorem searchLicenses_composition:
  "searchLicenses filters s =
     [l \<leftarrow> getAllLicenses s.
        (\<forall>v. filter_search filters = Some v \<and> v \<noteq> [] \<longrightarrow>
               pg_like (''%'' @ v @ ''%'') (softwareName l))
        \<and> (\<forall>v. filter_teamId filters = Some v \<and> v \<noteq> [] \<longrightarrow> teamId l = v)
        \<and> (\<forall>v. filter_vendorId filters = Some v \<and> v \<noteq> [] \<longrightarrow> vendorId l = v)
        \<and> (\<forall>v. filter_status filters = Some v \<and> v \<noteq> [] \<longrightarrow> status l = Some v)]
   \<and> searchLicenses filters s =
     [l \<leftarrow> getAllLicenses s.
        l \<in> set (searchLicenses (only_search filters) s)
        \<and> l \<in> set (searchLicenses (only_teamId filters) s)
        \<and> l \<in> set (searchLicenses (only_vendorId filters) s)
        \<and> l \<in> set (searchLicenses (only_status filters) s)]
   \<and> set (searchLicenses filters s) =
       set (searchLicenses (only_search filters) s) \<inter> set (searchLicenses (only_teamId filters) s)
       \<inter> set (searchLicenses (only_vendorId filters) s) \<inter> set (searchLicenses (only_status filters) s)
   \<and> searchLicenses no_filters s = getAllLicenses s
   \<and> set (getAllLicenses s) = set (licenses s)
   \<and> length (getAllLicenses s) = length (licenses s)
   \<and> sorted_wrt not_older (searchLicenses filters s)
   \<and> (plain_text v \<longrightarrow>
        pg_like (''%'' @ v @ ''%'') n = (\<exists>pre post. n = pre @ v @ post))"
proof -
  have m: "matches filters l =
       ((\<forall>v. filter_search filters = Some v \<and> v \<noteq> [] \<longrightarrow>
               pg_like (''%'' @ v @ ''%'') (softwareName l))
        \<and> (\<forall>v. filter_teamId filters = Some v \<and> v \<noteq> [] \<longrightarrow> teamId l = v)
        \<and> (\<forall>v. filter_vendorId filters = Some v \<and> v \<noteq> [] \<longrightarrow> vendorId l = v)
        \<and> (\<forall>v. filter_status filters = Some v \<and> v \<noteq> [] \<longrightarrow> status l = Some v))" for l
    unfolding matches_def conditions_list_all given_def search_condition_def team_condition_def
      vendor_condition_def status_condition_def
    by (cases "filter_search filters"; cases "filter_teamId filters";
        cases "filter_vendorId filters"; cases "filter_status filters")
       (simp_all del: pg_like.simps)
  have p: "searchLicenses filters s =
     [l \<leftarrow> getAllLicenses s.
        (\<forall>v. filter_search filters = Some v \<and> v \<noteq> [] \<longrightarrow>
               pg_like (''%'' @ v @ ''%'') (softwareName l))
        \<and> (\<forall>v. filter_teamId filters = Some v \<and> v \<noteq> [] \<longrightarrow> teamId l = v)
        \<and> (\<forall>v. filter_vendorId filters = Some v \<and> v \<noteq> [] \<longrightarrow> vendorId l = v)
        \<and> (\<forall>v. filter_status filters = Some v \<and> v \<noteq> [] \<longrightarrow> status l = Some v)]"
    unfolding searchLicenses_filter by (rule filter_cong) (simp_all only: m)
  have a: "searchLicenses filters s =
     [l \<leftarrow> getAllLicenses s.
        l \<in> set (searchLicenses (only_search filters) s)
        \<and> l \<in> set (searchLicenses (only_teamId filters) s)
        \<and> l \<in> set (searchLicenses (only_vendorId filters) s)
        \<and> l \<in> set (searchLicenses (only_status filters) s)]"
    unfolding searchLicenses_filter
    by (rule filter_cong) (auto simp: matches_split [of filters])
  have b: "set (searchLicenses filters s) =
       set (searchLicenses (only_search filters) s) \<inter> set (searchLicenses (only_teamId filters) s)
       \<inter> set (searchLicenses (only_vendorId filters) s) \<inter> set (searchLicenses (only_status filters) s)"
    unfolding searchLicenses_filter
    by (auto simp: matches_split [of filters])
  have c: "searchLicenses no_filters s = getAllLicenses s"
    by (simp add: searchLicenses_filter matches_no_filters)
  have d: "sorted_wrt not_older (searchLicenses filters s)"
    unfolding searchLicenses_filter by (rule sorted_wrt_filter) (rule sorted_getAllLicenses)
  have e: "plain_text v \<longrightarrow>
        pg_like (''%'' @ v @ ''%'') n = (\<exists>pre post. n = pre @ v @ post)"
    using pg_like_substring [of v n] by blast
  from p a b c set_getAllLicenses [of s] d e show ?thesis
    by (intro conjI)
qed

theorem searchLicenses_composition_witness:
  "searchLicenses active_in_T1 (example_store example_search)
     = [filed ''L4'' ''Zoom'' ''T1'' ''active'' 1700000000004,
        filed ''L1'' ''Zoom'' ''T1'' ''active'' 1700000000001]
   \<and> searchLicenses (only_status active_in_T1) (example_store example_search)
     = [filed ''L4'' ''Zoom'' ''T1'' ''active'' 1700000000004,
        filed ''L2'' ''Slack'' ''T2'' ''active'' 1700000000003,
        filed ''L1'' ''Zoom'' ''T1'' ''active'' 1700000000001]
   \<and> searchLicenses (only_teamId active_in_T1) (example_store example_search)
     = [filed ''L4'' ''Zoom'' ''T1'' ''active'' 1700000000004,
        filed ''L3'' ''Figma'' ''T1'' ''cancelled'' 1700000000002,
        filed ''L1'' ''Zoom'' ''T1'' ''active'' 1700000000001]
   \<and> getAllLicenses (example_store example_search)
     = [filed ''L4'' ''Zoom'' ''T1'' ''active'' 1700000000004,
        filed ''L2'' ''Slack'' ''T2'' ''active'' 1700000000003,
        filed ''L3'' ''Figma'' ''T1'' ''cancelled'' 1700000000002,
        filed ''L1'' ''Zoom'' ''T1'' ''active'' 1700000000001]
   \<and> plain_text ''oo'' \<and> pg_like (''%'' @ ''oo'' @ ''%'') ''Zoom''
   \<and> (\<exists>pre post. ''Zoom'' = pre @ ''oo'' @ post)"
proof -
  note w = searchLicenses_composition [where filters = active_in_T1
      and s = "example_store example_search" and v = "''oo''" and n = "''Zoom''"]
  have g: "getAllLicenses (example_store example_search)
     = [filed ''L4'' ''Zoom'' ''T1'' ''active'' 1700000000004,
        filed ''L2'' ''Slack'' ''T2'' ''active'' 1700000000003,
        filed ''L3'' ''Figma'' ''T1'' ''cancelled'' 1700000000002,
        filed ''L1'' ''Zoom'' ''T1'' ''active'' 1700000000001]"
    by code_simp
  have f: "filter_search active_in_T1 = None" "filter_teamId active_in_T1 = Some ''T1''"
    "filter_vendorId active_in_T1 = None" "filter_status active_in_T1 = Some ''active''"
    by (simp_all add: active_in_T1_def)
  have r: "teamId (filed i n t st c) = t" "status (filed i n t st c) = Some st" for i n t st c
    by (simp_all add: filed_def)
  have a: "searchLicenses active_in_T1 (example_store example_search)
     = [filed ''L4'' ''Zoom'' ''T1'' ''active'' 1700000000004,
        filed ''L1'' ''Zoom'' ''T1'' ''active'' 1700000000001]"
    using w [THEN conjunct1] by (simp add: g f r)
  have b: "searchLicenses (only_status active_in_T1) (example_store example_search)
     = [filed ''L4'' ''Zoom'' ''T1'' ''active'' 1700000000004,
        filed ''L2'' ''Slack'' ''T2'' ''active'' 1700000000003,
        filed ''L1'' ''Zoom'' ''T1'' ''active'' 1700000000001]"
    by code_simp
  have c: "searchLicenses (only_teamId active_in_T1) (example_store example_search)
     = [filed ''L4'' ''Zoom'' ''T1'' ''active'' 1700000000004,
        filed ''L3'' ''Figma'' ''T1'' ''cancelled'' 1700000000002,
        filed ''L1'' ''Zoom'' ''T1'' ''active'' 1700000000001]"
    by code_simp
  have p: "plain_text ''oo''"
    by code_simp
  have l: "pg_like (''%'' @ ''oo'' @ ''%'') ''Zoom''"
    by code_simp
  have e: "\<exists>pre post. ''Zoom'' = pre @ ''oo'' @ post"
    using w [THEN conjunct2, THEN conjunct2, THEN conjunct2, THEN conjunct2, THEN conjunct2,
        THEN conjunct2, THEN conjunct2] p l by blast
  show ?thesis
    by (intro conjI) (rule a, rule b, rule c, rule g, rule p, rule l, rule e)
qed

text \<open>
  C3 as stated takes the predicate on the software name for a substring match. In the
  pattern \<^verbatim>\<open>%search%\<close> the characters \<^verbatim>\<open>_\<close> and \<^verbatim>\<open>%\<close> of the search text are wildcards: a
  search for \<^verbatim>\<open>_oo\<close> returns the license named \<^verbatim>\<open>Zoom\<close>, in which \<^verbatim>\<open>_oo\<close> does not occur.
\<close>

theorem searchLicenses_wildcard_counterexample:
  "searchLicenses (no_filters\<lparr>filter_search := Some ''_oo''\<rparr>)
      (example_store [named ''L1'' ''Zoom'' 1700000000001])
     = [named ''L1'' ''Zoom'' 1700000000001]
   \<and> \<not> occurs_in ''_oo'' (softwareName (named ''L1'' ''Zoom'' 1700000000001))
   \<and> [l \<leftarrow> getAllLicenses (example_store [named ''L1'' ''Zoom'' 1700000000001]).
         occurs_in ''_oo'' (softwareName l)] = []"
proof -
  have a: "searchLicenses (no_filters\<lparr>filter_search := Some ''_oo''\<rparr>)
      (example_store [named ''L1'' ''Zoom'' 1700000000001])
     = [named ''L1'' ''Zoom'' 1700000000001]"
    by code_simp
  have b: "\<not> occurs_in ''_oo'' (softwareName (named ''L1'' ''Zoom'' 1700000000001))"
    by code_simp
  have c: "[l \<leftarrow> getAllLicenses (example_store [named ''L1'' ''Zoom'' 1700000000001]).
         occurs_in ''_oo'' (softwareName l)] = []"
    by code_simp
  show ?thesis
    by (intro conjI) (rule a, rule b, rule c)
qed

subsection \<open>\<^verbatim>\<open>getExpiringLicenses\<close>\<close>

lemma utc_day_add: "utc_day (now + days * msPerDay) = utc_day now + days"
  by (simp add: utc_day_def msPerDay_def)

lemma iso_bounds: "days_from_civil 0 1 1 = - 719528" "days_from_civil 9999 12 31 = 2932896"
  by (simp_all add: days_from_civil_def)

lemma iso_plain_valid: "iso_plain (utc_day t) \<Longrightarrow> valid_time t"
proof -
  assume "iso_plain (utc_day t)"
  then have b: "- 719528 \<le> t div 86400000" "t div 86400000 \<le> 2932896"
    by (simp_all add: iso_plain_def iso_bounds utc_day_def msPerDay_def)
  have e: "t = (t div 86400000) * 86400000 + t mod 86400000"
    by simp
  have m: "0 \<le> t mod 86400000" "t mod 86400000 < 86400000"
    by simp_all
  from b have "- 719528 * 86400000 \<le> (t div 86400000) * 86400000"
    "(t div 86400000) * 86400000 \<le> 2932896 * 86400000"
    by simp_all
  with e m have "- 62167219200000 \<le> t" "t < 253402300800000"
    by linarith+
  then show ?thesis
    by (simp add: valid_time_def)
qed

lemma expiring_condition_expires_within:
  "expiring_condition lo hi l = expires_within lo hi l"
  by (auto simp: expiring_condition_def expires_within_def split: option.splits)

lemma in_window_expires_within: "in_window today days l = expires_within today (today + days) l"
  by (simp add: in_window_def expires_within_def)

lemma getExpiringLicenses_between:
  assumes "iso_plain (utc_day (setDate_days_later now (instant now) days))"
  shows "getExpiringLicenses now days s =
     Inr [l \<leftarrow> licenses s. expires_within (utc_day (instant now))
                              (utc_day (setDate_days_later now (instant now) days)) l]"
proof -
  have "valid_time (setDate_days_later now (instant now) days)"
    using assms by (rule iso_plain_valid)
  then show ?thesis
    by (simp add: getExpiringLicenses_def Let_def expiring_condition_expires_within [abs_def])
qed

lemma setDate_days_later_constant:
  assumes "offset_utc now = (\<lambda>t. z)" and "offset_local now = (\<lambda>t. z)"
  shows "setDate_days_later now t days = t + days * msPerDay"
  using assms by (simp add: setDate_days_later_def LocalTime_def UTC_time_def)

lemma getExpiringLicenses_plain:
  assumes "offset_utc now = (\<lambda>t. z)" and "offset_local now = (\<lambda>t. z)"
    and "iso_plain (utc_day (instant now) + days)"
  shows "getExpiringLicenses now days s
           = Inr [l \<leftarrow> licenses s. in_window (utc_day (instant now)) days l]"
proof -
  have e: "utc_day (setDate_days_later now (instant now) days) = utc_day (instant now) + days"
    using assms(1,2) by (simp add: setDate_days_later_constant utc_day_add)
  have "iso_plain (utc_day (setDate_days_later now (instant now) days))"
    using assms(3) by (simp only: e)
  then have "getExpiringLicenses now days s =
     Inr [l \<leftarrow> licenses s. expires_within (utc_day (instant now))
                              (utc_day (setDate_days_later now (instant now) days)) l]"
    by (rule getExpiringLicenses_between)
  then show ?thesis
    by (simp only: e in_window_expires_within [symmetric])
qed

lemma js_int_30: "js_int (js_of_int 30) = Some 30"
  by code_simp

lemma parseInt_None: "parseInt None = NaN"
  by code_simp

text \<open>
  C5, as amended. \<^verbatim>\<open>getExpiringLicenses(days)\<close> returns exactly the licenses whose status is
  \<^verbatim>\<open>"active"\<close> and whose expiry date lies between two days, both included: the first is the
  calendar day of the server's clock in UTC, the last the calendar day in UTC of the instant
  that \<^verbatim>\<open>setDate(getDate() + days)\<close> reaches in the server's local time (stated for two days
  that are written with four-digit years). When the server's zone has a constant offset to
  UTC, the last day is the first plus \<open>days\<close>, so that the window is \<open>[today, today + days]\<close>
  with today the day in UTC; and when the offset is zero, this today is also the date of the
  server's local time. The route takes 30 days when the \<^verbatim>\<open>days\<close> parameter is absent. The
  witness is the example of the specification on a server that runs in UTC: today is
  2024-01-01, and of an active license expiring 2024-01-15, an active one expiring
  2024-03-01 and a cancelled one expiring 2024-01-10 only the first is returned.
\<close>

theorem getExpiringLicenses_window:
  "(iso_plain (utc_day (instant now))
      \<and> iso_plain (utc_day (setDate_days_later now (instant now) days)) \<longrightarrow>
      getExpiringLicenses now days s =
        Inr [l \<leftarrow> licenses s. expires_within (utc_day (instant now))
                                 (utc_day (setDate_days_later now (instant now) days)) l])
   \<and> (offset_utc now = (\<lambda>t. z) \<and> offset_local now = (\<lambda>t. z) \<longrightarrow>
        utc_day (setDate_days_later now (instant now) days) = utc_day (instant now) + days)
   \<and> (offset_utc now = (\<lambda>t. z) \<and> offset_local now = (\<lambda>t. z)
        \<and> iso_plain (utc_day (instant now)) \<and> iso_plain (utc_day (instant now) + days) \<longrightarrow>
        getExpiringLicenses now days s
          = Inr [l \<leftarrow> licenses s. in_window (utc_day (instant now)) days l])
   \<and> (offset_utc now = (\<lambda>t. z) \<and> offset_local now = (\<lambda>t. z)
        \<and> iso_plain (utc_day (instant now)) \<and> iso_plain (utc_day (instant now) + 30) \<longrightarrow>
        get_expiring_route now None s
          = Response 200 (Some [l \<leftarrow> licenses s. in_window (utc_day (instant now)) 30 l]))
   \<and> (offset_utc now (instant now) = 0 \<longrightarrow> local_day now = utc_day (instant now))"
proof -
  have r: "js_int (route_days None) = Some 30"
    by (simp add: route_days_def parseInt_None js_int_30)
  have a: "iso_plain (utc_day (instant now))
      \<and> iso_plain (utc_day (setDate_days_later now (instant now) days)) \<longrightarrow>
      getExpiringLicenses now days s =
        Inr [l \<leftarrow> licenses s. expires_within (utc_day (instant now))
                                 (utc_day (setDate_days_later now (instant now) days)) l]"
    by (simp add: getExpiringLicenses_between)
  have b: "offset_utc now = (\<lambda>t. z) \<and> offset_local now = (\<lambda>t. z) \<longrightarrow>
        utc_day (setDate_days_later now (instant now) days) = utc_day (instant now) + days"
    by (simp add: setDate_days_later_constant utc_day_add)
  have c: "offset_utc now = (\<lambda>t. z) \<and> offset_local now = (\<lambda>t. z)
        \<and> iso_plain (utc_day (instant now)) \<and> iso_plain (utc_day (instant now) + d) \<longrightarrow>
        getExpiringLicenses now d s
          = Inr [l \<leftarrow> licenses s. in_window (utc_day (instant now)) d l]" for d
    using getExpiringLicenses_plain [of now z d s] by blast
  have d: "offset_utc now = (\<lambda>t. z) \<and> offset_local now = (\<lambda>t. z)
        \<and> iso_plain (utc_day (instant now)) \<and> iso_plain (utc_day (instant now) + 30) \<longrightarrow>
        get_expiring_route now None s
          = Response 200 (Some [l \<leftarrow> licenses s. in_window (utc_day (instant now)) 30 l])"
    using c [of 30] by (simp add: get_expiring_route_def r)
  have e: "offset_utc now (instant now) = 0 \<longrightarrow> local_day now = utc_day (instant now)"
    by (simp add: local_day_def LocalTime_def utc_day_def)
  from a b c [of days] d e show ?thesis
    by (intro conjI)
qed

theorem getExpiringLicenses_window_witness:
  "offset_utc example_now = (\<lambda>t. 0) \<and> offset_local example_now = (\<lambda>t. 0)
   \<and> iso_plain (utc_day (instant example_now))
   \<and> iso_plain (utc_day (instant example_now) + 30)
   \<and> utc_day (instant example_now) = days_from_civil 2024 1 1
   \<and> local_day example_now = days_from_civil 2024 1 1
   \<and> getExpiringLicenses example_now 30 (example_store example_expiring) = Inr [example_license]
   \<and> get_expiring_route example_now None (example_store example_expiring)
       = Response 200 (Some [example_license])"
proof -
  have z: "offset_utc example_now = (\<lambda>t. 0) \<and> offset_local example_now = (\<lambda>t. 0)"
    by (simp add: example_now_def)
  have h: "iso_plain (utc_day (instant example_now) + 30)"
    by code_simp
  have h0: "iso_plain (utc_day (instant example_now))"
    by code_simp
  have d: "utc_day (instant example_now) = days_from_civil 2024 1 1"
    by code_simp
  have l: "local_day example_now = days_from_civil 2024 1 1"
    by code_simp
  have f: "[l \<leftarrow> licenses (example_store example_expiring).
              in_window (utc_day (instant example_now)) 30 l] = [example_license]"
    by code_simp
  note w = getExpiringLicenses_window [where now = example_now and days = 30 and z = 0
      and s = "example_store example_expiring"]
  have g: "getExpiringLicenses example_now 30 (example_store example_expiring)
             = Inr [example_license]"
    using w [THEN conjunct2, THEN conjunct2, THEN conjunct1] z h0 h by (simp only: f)
  have r: "get_expiring_route example_now None (example_store example_expiring)
             = Response 200 (Some [example_license])"
    using w [THEN conjunct2, THEN conjunct2, THEN conjunct2, THEN conjunct1] z h0 h
    by (simp only: f)
  show ?thesis
    by (intro conjI) (rule z [THEN conjunct1], rule z [THEN conjunct2], rule h0, rule h, rule d,
        rule l, rule g, rule r)
qed

text \<open>
  C5 as stated takes the window \<open>[today, today + days]\<close>, and the specification takes for
  today the date of the server's local time. On a server in the east of North America at
  2024-03-01, 00:30 UTC, the local date is 2024-02-29 and the date in UTC 2024-03-01; thirty
  days later by the local calendar it is 2024-03-30, 19:30 local time, which after the
  change to daylight saving time is 23:30 UTC of the same day. The window of the code is
  2024-03-01 to 2024-03-30. Of two active licenses, one expiring 2024-03-31 and one expiring
  2024-02-29, it returns neither; the window counted from the date in UTC holds the first,
  the window counted from the local date the second.
\<close>

theorem getExpiringLicenses_zone_counterexample:
  "getExpiringLicenses (eastern_2024 1709253000000) 30
      (example_store [expiring_on ''L1'' (days_from_civil 2024 3 31),
                      expiring_on ''L2'' (days_from_civil 2024 2 29)]) = Inr []
   \<and> utc_day (instant (eastern_2024 1709253000000)) = days_from_civil 2024 3 1
   \<and> local_day (eastern_2024 1709253000000) = days_from_civil 2024 2 29
   \<and> [l \<leftarrow> [expiring_on ''L1'' (days_from_civil 2024 3 31),
            expiring_on ''L2'' (days_from_civil 2024 2 29)].
        in_window (utc_day (instant (eastern_2024 1709253000000))) 30 l]
      = [expiring_on ''L1'' (days_from_civil 2024 3 31)]
   \<and> [l \<leftarrow> [expiring_on ''L1'' (days_from_civil 2024 3 31),
            expiring_on ''L2'' (days_from_civil 2024 2 29)].
        in_window (local_day (eastern_2024 1709253000000)) 30 l]
      = [expiring_on ''L2'' (days_from_civil 2024 2 29)]"
proof -
  have a: "getExpiringLicenses (eastern_2024 1709253000000) 30
      (example_store [expiring_on ''L1'' (days_from_civil 2024 3 31),
                      expiring_on ''L2'' (days_from_civil 2024 2 29)]) = Inr []"
    by code_simp
  have b: "utc_day (instant (eastern_2024 1709253000000)) = days_from_civil 2024 3 1"
    by code_simp
  have c: "local_day (eastern_2024 1709253000000) = days_from_civil 2024 2 29"
    by code_simp
  have d: "[l \<leftarrow> [expiring_on ''L1'' (days_from_civil 2024 3 31),
            expiring_on ''L2'' (days_from_civil 2024 2 29)].
        in_window (utc_day (instant (eastern_2024 1709253000000))) 30 l]
      = [expiring_on ''L1'' (days_from_civil 2024 3 31)]"
    by code_simp
  have e: "[l \<leftarrow> [expiring_on ''L1'' (days_from_civil 2024 3 31),
            expiring_on ''L2'' (days_from_civil 2024 2 29)].
        in_window (local_day (eastern_2024 1709253000000)) 30 l]
      = [expiring_on ''L2'' (days_from_civil 2024 2 29)]"
    by code_simp
  show ?thesis
    by (intro conjI) (rule a, rule b, rule c, rule d, rule e)
qed

subsection \<open>The \<^verbatim>\<open>days\<close> parameter\<close>




subsection \<open>\<^verbatim>\<open>getOrCreateVendor\<close>\<close>

lemma distinct_filter_le1:
  "distinct (map f xs) \<Longrightarrow> length (filter (\<lambda>x. f x = a) xs) \<le> 1"
proof (induction xs)
  case Nil
  then show ?case by simp
next
  case (Cons x xs)
  show ?case
  proof (cases "f x = a")
    case True
    from Cons.prems have "f x \<notin> f ` set xs"
      by simp
    with True have "\<forall>y\<in>set xs. f y \<noteq> a"
      by blast
    then have "filter (\<lambda>y. f y = a) xs = []"
      by (simp add: filter_empty_conv)
    with True show ?thesis by simp
  next
    case False
    with Cons show ?thesis by simp
  qed
qed

text \<open>
  C8, as amended. \<^verbatim>\<open>getOrCreateVendor(name)\<close> returns the vendor of that exact name when
  there is one, and otherwise creates it with only the name given. When a call has returned
  a vendor, a second call with the same name, run after the first, returns the same vendor
  (so the same id) and changes nothing, and the store then holds exactly one vendor of that
  name.
\<close>

theorem getOrCreateVendor_twice:
  assumes d: "distinct (map vendor_name (vendors s))"
    and c: "getOrCreateVendor id1 now1 name s = (Inr v, s1)"
  shows "getOrCreateVendor id2 now2 name s1 = (Inr v, s1)
    \<and> vendor_name v = name
    \<and> length [x \<leftarrow> vendors s1. vendor_name x = name] = 1
    \<and> (selectVendorByName name s \<noteq> None \<longrightarrow> selectVendorByName name s = Some v \<and> s1 = s)
    \<and> (selectVendorByName name s = None \<longrightarrow>
         v = \<lparr>vendor_id = id1, vendor_name = name, vendor_website = None,
              vendor_contactEmail = None, vendor_createdAt = Some now1\<rparr>
         \<and> s1 = s\<lparr>vendors := vendors s @ [v]\<rparr>)"
proof (cases "filter (\<lambda>x. vendor_name x = name) (vendors s)")
  case Nil
  then have sel: "selectVendorByName name s = None"
    by (simp add: selectVendorByName_def)
  let ?v = "\<lparr>vendor_id = id1, vendor_name = name, vendor_website = None,
             vendor_contactEmail = None, vendor_createdAt = Some now1\<rparr>"
  from c sel have v: "v = ?v" and s1: "s1 = s\<lparr>vendors := vendors s @ [?v]\<rparr>"
    by (auto simp: getOrCreateVendor_def getOrCreateVendor_resume_def createVendor_def Let_def
        split: if_splits)
  have f1: "filter (\<lambda>x. vendor_name x = name) (vendors s1) = [v]"
    using Nil v s1 by simp
  then have "getOrCreateVendor id2 now2 name s1 = (Inr v, s1)"
    by (simp add: getOrCreateVendor_def getOrCreateVendor_resume_def selectVendorByName_def)
  with f1 sel v s1 show ?thesis by simp
next
  case (Cons v' rest)
  then have sel: "selectVendorByName name s = Some v'"
    by (simp add: selectVendorByName_def)
  with c have v: "v = v'" and s1: "s1 = s"
    by (auto simp: getOrCreateVendor_def getOrCreateVendor_resume_def)
  have "v' \<in> set (filter (\<lambda>x. vendor_name x = name) (vendors s))"
    using Cons by simp
  then have n: "vendor_name v' = name" by simp
  have "length (filter (\<lambda>x. vendor_name x = name) (vendors s)) \<le> 1"
    using d by (rule distinct_filter_le1)
  with Cons have l: "length (filter (\<lambda>x. vendor_name x = name) (vendors s)) = 1"
    by simp
  have "getOrCreateVendor id2 now2 name s = (Inr v', s)"
    using sel by (simp add: getOrCreateVendor_def getOrCreateVendor_resume_def)
  with sel v s1 n l show ?thesis by simp
qed

theorem getOrCreateVendor_twice_witness:
  "distinct (map vendor_name (vendors no_rows))
   \<and> getOrCreateVendor ''V7'' 1700000000000 ''Acme'' no_rows
       = (Inr (acme ''V7''), no_rows\<lparr>vendors := [acme ''V7'']\<rparr>)
   \<and> getOrCreateVendor ''V8'' 1700000000500 ''Acme'' (no_rows\<lparr>vendors := [acme ''V7'']\<rparr>)
       = (Inr (acme ''V7''), no_rows\<lparr>vendors := [acme ''V7'']\<rparr>)
   \<and> length [x \<leftarrow> vendors (no_rows\<lparr>vendors := [acme ''V7'']\<rparr>). vendor_name x = ''Acme''] = 1"
proof -
  have d: "distinct (map vendor_name (vendors no_rows))"
    by code_simp
  have c: "getOrCreateVendor ''V7'' 1700000000000 ''Acme'' no_rows
       = (Inr (acme ''V7''), no_rows\<lparr>vendors := [acme ''V7'']\<rparr>)"
    by code_simp
  from getOrCreateVendor_twice [OF d c, of "''V8''" 1700000000500] d c
  show ?thesis by simp
qed

text \<open>
  C8 as stated also covers calls that run at once. Two calls for a name that no vendor
  has, with both selects answered before either insert: the first call creates the vendor,
  the insert of the second is refused by the store, and that call fails instead of
  returning the vendor.
\<close>

theorem getOrCreateVendor_interleaved_counterexample:
  "getOrCreateVendor_interleaved ''V7'' ''V8'' 1700000000000 ''Acme'' no_rows
     = (Inr (acme ''V7''), Inl ConstraintViolation, no_rows\<lparr>vendors := [acme ''V7'']\<rparr>)"
  by code_simp

subsection \<open>\<^verbatim>\<open>getLicenseMetrics\<close>: the monthly cost\<close>

lemma monthlyCost_step_recurring:
  "monthlyCost_step acc l = (if recurring l then dadd acc (monthly_equivalent l) else acc)"
  by (simp add: monthlyCost_step_def recurring_def monthly_equivalent_def Let_def)

lemma foldl_monthlyCost_step:
  "foldl monthlyCost_step acc ls = foldl dadd acc (map monthly_equivalent (filter recurring ls))"
  by (induction ls arbitrary: acc) (simp_all add: monthlyCost_step_recurring)

lemma monthlyCost_of_sum:
  "monthlyCost_of ls = Math_round (js_sum (map monthly_equivalent (filter recurring ls)))"
  by (simp add: monthlyCost_of_def js_sum_def foldl_monthlyCost_step)

lemma getLicenseMetrics_fields:
  "getLicenseMetrics now s = Inr m \<Longrightarrow>
     monthlyCost m = monthlyCost_of (getAllLicenses s)
     \<and> utilizationRate m = utilizationRate_of (getAllLicenses s)
     \<and> totalLicenses m = length (getAllLicenses s)"
  by (auto simp: getLicenseMetrics_def Let_def split: sum.splits)

text \<open>
  C2, as amended. \<^verbatim>\<open>getLicenseMetrics().monthlyCost\<close> is \<^verbatim>\<open>Math.round\<close>, applied once, to the
  sum of the monthly equivalents of the licenses billed monthly, quarterly or annually (the
  others are left out), where the monthly equivalent is \<^verbatim>\<open>parseFloat\<close> of the cost, divided
  by 3 for quarterly and by 12 for annually, and the division and the additions are those
  of JavaScript numbers (IEEE-754 doubles), the additions made from 0 in the order of
  \<^verbatim>\<open>getAllLicenses\<close>. The witness is the example of the specification: 120.00 monthly and
  300.00 quarterly give \<open>round(120 + 100) = 220\<close>.
\<close>

theorem monthlyCost_rounds_double_sum:
  "monthlyCost_of ls = Math_round (js_sum (map monthly_equivalent [l \<leftarrow> ls. recurring l]))
   \<and> (getLicenseMetrics now s = Inr m \<longrightarrow>
        monthlyCost m
          = Math_round (js_sum (map monthly_equivalent [l \<leftarrow> getAllLicenses s. recurring l])))"
  using getLicenseMetrics_fields [of now s m] by (simp add: monthlyCost_of_sum)

theorem monthlyCost_rounds_double_sum_witness:
  "getLicenseMetrics example_now (example_store example_metrics)
     = Inr \<lparr>totalLicenses = 2, monthlyCost = js_of_int 220, expiringSoon = 2,
            utilizationRate = js_of_int 75\<rparr>
   \<and> Math_round (js_sum (map monthly_equivalent
        [l \<leftarrow> getAllLicenses (example_store example_metrics). recurring l])) = js_of_int 220
   \<and> Math_round (dadd (js_of_int 120) (js_of_int 100)) = js_of_int 220"
proof -
  have g: "getLicenseMetrics example_now (example_store example_metrics)
     = Inr \<lparr>totalLicenses = 2, monthlyCost = js_of_int 220, expiringSoon = 2,
            utilizationRate = js_of_int 75\<rparr>"
    by code_simp
  have r: "Math_round (dadd (js_of_int 120) (js_of_int 100)) = js_of_int 220"
    by code_simp
  have m: "monthlyCost \<lparr>totalLicenses = 2, monthlyCost = js_of_int 220, expiringSoon = 2,
            utilizationRate = js_of_int 75\<rparr>
     = Math_round (js_sum (map monthly_equivalent
        [l \<leftarrow> getAllLicenses (example_store example_metrics). recurring l]))"
    using monthlyCost_rounds_double_sum [of example_metrics example_now
        "example_store example_metrics"
        "\<lparr>totalLicenses = 2, monthlyCost = js_of_int 220, expiringSoon = 2,
          utilizationRate = js_of_int 75\<rparr>", THEN conjunct2] g
    by (rule mp)
  have s: "Math_round (js_sum (map monthly_equivalent
        [l \<leftarrow> getAllLicenses (example_store example_metrics). recurring l])) = js_of_int 220"
    using m by simp
  show ?thesis
    by (intro conjI) (rule g, rule s, rule r)
qed

text \<open>
  C2 as stated reads the sum as the sum of the decimal costs. Three licenses billed monthly
  at 0.60, 0.70 and 0.20: the costs add up to 1.50, which rounds to 2; the code adds the
  doubles, gets 1.4999999999999998 and returns 1.
\<close>

theorem monthlyCost_exact_counterexample:
  "monthlyCost_of [priced ''L1'' 60 ''monthly'', priced ''L2'' 70 ''monthly'',
                   priced ''L3'' 20 ''monthly''] = js_of_int 1
   \<and> monthlyCost_exact [priced ''L1'' 60 ''monthly'', priced ''L2'' 70 ''monthly'',
                        priced ''L3'' 20 ''monthly''] = 2
   \<and> js_of_int 1 \<noteq> js_of_int 2"
proof -
  have a: "monthlyCost_of [priced ''L1'' 60 ''monthly'', priced ''L2'' 70 ''monthly'',
                   priced ''L3'' 20 ''monthly''] = js_of_int 1"
    by code_simp
  have b: "monthlyCost_exact [priced ''L1'' 60 ''monthly'', priced ''L2'' 70 ''monthly'',
                        priced ''L3'' 20 ''monthly''] = 2"
    by code_simp
  have c: "js_of_int 1 \<noteq> js_of_int 2"
    by code_simp
  show ?thesis
    by (intro conjI) (rule a, rule b, rule c)
qed

subsection \<open>\<^verbatim>\<open>getLicenseMetrics\<close>: the utilization rate\<close>

text \<open>
  Whole numbers below \<open>2^53\<close> in absolute value are numbers, and their sums are exact: the
  sum of seat counts the code computes is the sum of the integers.
\<close>

lemma norm_double_shift: "x \<noteq> 0 \<Longrightarrow> norm_double (x * 2 ^ j) s = norm_double x (s + int j)"
proof (induction j arbitrary: s)
  case 0
  then show ?case by simp
next
  case (Suc j)
  have "norm_double (x * 2 ^ Suc j) s = norm_double (x * 2 ^ j) (s + 1)"
    using Suc.prems by (subst norm_double.simps) simp
  also have "\<dots> = norm_double x (s + 1 + int j)"
    using Suc.prems by (rule Suc.IH)
  finally show ?case by (simp add: add.commute add.left_commute)
qed

lemma norm_double_Fin_nonzero:
  "a \<noteq> 0 \<Longrightarrow> \<exists>m e. norm_double a k = Fin m e \<and> k \<le> e \<and> a = m * 2 ^ nat (e - k)"
proof (induction a k rule: norm_double.induct)
  case (1 m e)
  show ?case
  proof (cases "even m")
    case False
    with "1.prems" have "norm_double m e = Fin m e" by (simp add: norm_double.simps)
    then show ?thesis by simp
  next
    case True
    with "1.prems" have st: "norm_double m e = norm_double (m div 2) (e + 1)"
      by (subst norm_double.simps) simp
    from True "1.prems" have h: "m div 2 \<noteq> 0" by auto
    from "1.IH" [OF "1.prems" True h] obtain m' e' where
      r: "norm_double (m div 2) (e + 1) = Fin m' e'" "e + 1 \<le> e'"
        "m div 2 = m' * 2 ^ nat (e' - (e + 1))"
      by auto
    have "nat (e' - e) = Suc (nat (e' - (e + 1)))" using r(2) by simp
    then have "m' * 2 ^ nat (e' - e) = 2 * (m div 2)"
      using r(3) by simp
    also have "\<dots> = m" using True by simp
    finally have "m = m' * 2 ^ nat (e' - e)" by simp
    with st r show ?thesis by auto
  qed
qed

lemma norm_double_Fin: "\<exists>m e. norm_double a 0 = Fin m e \<and> 0 \<le> e \<and> a = m * 2 ^ nat e"
proof (cases "a = 0")
  case True
  then show ?thesis by (simp add: norm_double.simps)
next
  case False
  then show ?thesis using norm_double_Fin_nonzero [of a 0] by simp
qed

lemma round_scaled_unfold:
  assumes "p \<noteq> 0"
    and "d = bitlen \<bar>p\<bar> - bitlen q + k"
    and "e = (if q * 2 ^ nat (d - k) \<le> \<bar>p\<bar> * 2 ^ nat (k - d) then d else d - 1)"
    and "e' = max e (- 1022)"
    and "s = e' - 52"
    and "num = \<bar>p\<bar> * 2 ^ nat (k - s)"
    and "den = q * 2 ^ nat (s - k)"
    and "m = (if 2 * (num mod den) < den then num div den
              else if den < 2 * (num mod den) then num div den + 1
              else if even (num div den) then num div den else num div den + 1)"
  shows "round_scaled p q k =
     (if 1024 \<le> e' \<or> (e' = 1023 \<and> m = 2 ^ 53) then (if 0 < p then PosInf else NegInf)
      else norm_double (sgn p * m) s)"
  unfolding round_scaled_def Let_def assms(2-8) using assms(1) by (simp only: if_False)

lemma bitlen_1: "bitlen 1 = 1"
  by (subst compute_bitlen) simp

lemma round_scaled_exact:
  assumes M: "M \<noteq> 0" and k: "0 \<le> k" and b: "\<bar>M\<bar> * 2 ^ nat k < 2 ^ 53"
  shows "round_scaled M 1 k = norm_double M k"
proof -
  let ?a = "\<bar>M\<bar>"
  have a0: "0 < ?a" using M by simp
  have bl: "0 < bitlen ?a"
    using a0 bitlen_nonneg [of ?a] bitlen_eq_zero_iff [of ?a] by linarith
  have lo: "2 ^ nat (bitlen ?a - 1) \<le> ?a"
    using bitlen_bounds [OF a0] by simp
  define d where "d = bitlen ?a - bitlen 1 + k"
  have d: "d = bitlen ?a - 1 + k" by (simp add: d_def bitlen_1)
  have "(2::int) ^ nat (bitlen ?a - 1) * 2 ^ nat k \<le> ?a * 2 ^ nat k"
    using lo by (rule mult_right_mono) simp
  with b have "(2::int) ^ nat (bitlen ?a - 1) * 2 ^ nat k < 2 ^ 53"
    by linarith
  then have "(2::int) ^ (nat (bitlen ?a - 1) + nat k) < 2 ^ 53"
    by (simp add: power_add)
  then have "\<not> 53 \<le> nat (bitlen ?a - 1) + nat k"
    using power_increasing [of 53 "nat (bitlen ?a - 1) + nat k" "2::int"] by auto
  then have d52: "d \<le> 52" using bl k d by linarith
  have d0: "0 \<le> d" using bl k d by linarith
  have dk: "nat (d - k) = nat (bitlen ?a - 1)" "nat (k - d) = 0"
    using bl d by simp_all
  define e where "e = (if 1 * 2 ^ nat (d - k) \<le> ?a * 2 ^ nat (k - d) then d else d - 1)"
  have e: "e = d" using lo by (simp add: e_def dk)
  define e' where "e' = max e (- 1022)"
  have e': "e' = d" using d0 by (simp add: e'_def e)
  define s where "s = e' - 52"
  have s: "s = d - 52" by (simp add: s_def e')
  define num where "num = ?a * 2 ^ nat (k - s)"
  define den where "den = (1::int) * 2 ^ nat (s - k)"
  have sk: "nat (s - k) = 0" using s d52 k by simp
  have den: "den = 1" by (simp add: den_def sk)
  define m where "m = (if 2 * (num mod den) < den then num div den
              else if den < 2 * (num mod den) then num div den + 1
              else if even (num div den) then num div den else num div den + 1)"
  have m: "m = num" by (simp add: m_def den)
  have no: "\<not> (1024 \<le> e' \<or> (e' = 1023 \<and> m = 2 ^ 53))"
    using e' d52 by simp
  have "round_scaled M 1 k = norm_double (sgn M * m) s"
    using round_scaled_unfold [OF M d_def e_def e'_def s_def num_def den_def m_def] no
    by (simp only: if_False)
  also have "sgn M * m = M * 2 ^ nat (k - s)"
    by (simp add: m num_def mult.assoc [symmetric] mult_sgn_abs)
  also have "norm_double (M * 2 ^ nat (k - s)) s = norm_double M (s + int (nat (k - s)))"
    using M by (rule norm_double_shift)
  also have "s + int (nat (k - s)) = k"
    using s d52 k by linarith
  finally show ?thesis .
qed

lemma js_of_int_norm: "\<bar>n\<bar> < 2 ^ 53 \<Longrightarrow> js_of_int n = norm_double n 0"
proof (cases "n = 0")
  case True
  then show ?thesis by (simp add: js_of_int_def round_scaled_def norm_double.simps)
next
  case False
  assume "\<bar>n\<bar> < 2 ^ 53"
  with False show ?thesis
    using round_scaled_exact [of n 0] by (simp add: js_of_int_def)
qed

lemma dadd_norm:
  assumes "\<bar>a + b\<bar> < 2 ^ 53"
  shows "dadd (norm_double a 0) (norm_double b 0) = norm_double (a + b) 0"
proof -
  obtain m1 e1 where A: "norm_double a 0 = Fin m1 e1" "0 \<le> e1" "a = m1 * 2 ^ nat e1"
    using norm_double_Fin [of a] by auto
  obtain m2 e2 where B: "norm_double b 0 = Fin m2 e2" "0 \<le> e2" "b = m2 * 2 ^ nat e2"
    using norm_double_Fin [of b] by auto
  let ?e = "min e1 e2"
  let ?M = "m1 * 2 ^ nat (e1 - ?e) + m2 * 2 ^ nat (e2 - ?e)"
  have e0: "0 \<le> ?e" using A(2) B(2) by simp
  have p1: "nat e1 = nat (e1 - ?e) + nat ?e" using A(2) B(2) by (cases "e1 \<le> e2"; simp add: min_def; linarith?)
  have p2: "nat e2 = nat (e2 - ?e) + nat ?e" using A(2) B(2) by (cases "e1 \<le> e2"; simp add: min_def; linarith?)
  have "?M * 2 ^ nat ?e = m1 * (2 ^ nat (e1 - ?e) * 2 ^ nat ?e) + m2 * (2 ^ nat (e2 - ?e) * 2 ^ nat ?e)"
    by (simp add: algebra_simps)
  also have "\<dots> = m1 * 2 ^ nat e1 + m2 * 2 ^ nat e2"
    by (metis p1 p2 power_add)
  finally have sum: "?M * 2 ^ nat ?e = a + b" using A(3) B(3) by simp
  have d: "dadd (norm_double a 0) (norm_double b 0) = round_scaled ?M 1 ?e"
    by (simp add: A(1) B(1) Let_def)
  show ?thesis
  proof (cases "?M = 0")
    case True
    with sum have "a + b = 0" by simp
    with True d show ?thesis by (simp add: round_scaled_def norm_double.simps)
  next
    case False
    have "\<bar>?M\<bar> * 2 ^ nat ?e = \<bar>a + b\<bar>"
      using sum by (metis abs_mult abs_numeral abs_power2 power_abs)
    with assms have "\<bar>?M\<bar> * 2 ^ nat ?e < 2 ^ 53" by simp
    with False e0 have "round_scaled ?M 1 ?e = norm_double ?M ?e"
      by (intro round_scaled_exact)
    also have "\<dots> = norm_double (?M * 2 ^ nat ?e) 0"
      using norm_double_shift [OF False, of "nat ?e" 0] e0 by simp
    finally show ?thesis using d sum by simp
  qed
qed

lemma foldl_dadd_ints:
  "\<bar>acc\<bar> + sum_list (map abs xs) < 2 ^ 53 \<Longrightarrow>
   foldl dadd (norm_double acc 0) (map js_of_int xs) = norm_double (acc + sum_list xs) 0"
proof (induction xs arbitrary: acc)
  case Nil
  then show ?case by simp
next
  case (Cons x xs)
  have nn: "0 \<le> sum_list (map abs xs)"
    by (rule sum_list_nonneg) auto
  have x: "\<bar>x\<bar> < 2 ^ 53" using Cons.prems nn by simp
  have ax: "\<bar>acc + x\<bar> < 2 ^ 53" using Cons.prems nn by simp
  have "foldl dadd (norm_double acc 0) (map js_of_int (x # xs))
        = foldl dadd (dadd (norm_double acc 0) (norm_double x 0)) (map js_of_int xs)"
    by (simp add: js_of_int_norm [OF x])
  also have "\<dots> = foldl dadd (norm_double (acc + x) 0) (map js_of_int xs)"
    by (simp add: dadd_norm [OF ax])
  also have "\<dots> = norm_double (acc + x + sum_list xs) 0"
    using Cons.prems by (intro Cons.IH) simp
  finally show ?case by (simp add: add.assoc)
qed

lemma js_sum_ints:
  "sum_list (map abs xs) < 2 ^ 53 \<Longrightarrow> js_sum (map js_of_int xs) = js_of_int (sum_list xs)"
proof -
  assume a: "sum_list (map abs xs) < 2 ^ 53"
  have "\<bar>sum_list xs\<bar> \<le> sum_list (map abs xs)"
    by (rule sum_list_abs)
  with a have b: "\<bar>sum_list xs\<bar> < 2 ^ 53" by simp
  have "Fin 0 0 = norm_double 0 0" by (simp add: norm_double.simps)
  then show ?thesis
    using foldl_dadd_ints [of 0 xs] a by (simp add: js_sum_def js_of_int_norm [OF b])
qed

lemma js_pos_js_of_int: "\<bar>n\<bar> < 2 ^ 53 \<Longrightarrow> js_pos (js_of_int n) = (0 < n)"
proof -
  assume "\<bar>n\<bar> < 2 ^ 53"
  then have j: "js_of_int n = norm_double n 0" by (rule js_of_int_norm)
  obtain m e where r: "norm_double n 0 = Fin m e" "n = m * 2 ^ nat e"
    using norm_double_Fin [of n] by auto
  have "js_pos (js_of_int n) = (0 < m)"
    using j r(1) by simp
  moreover have "(0 < n) = (0 < m)"
    using r(2) by (simp add: zero_less_mult_iff)
  ultimately show ?thesis by simp
qed

lemma utilizationRate_of_sums:
  "utilizationRate_of ls =
     (if js_pos (js_sum (map js_of_int (map totalSeats ls)))
      then Math_round (dmul (ddiv (js_sum (map js_of_int (map used_or_zero ls)))
                                  (js_sum (map js_of_int (map totalSeats ls)))) (js_of_int 100))
      else Fin 0 0)"
proof -
  have u: "usedSeats_or_0 = used_or_zero"
    by (auto simp: usedSeats_or_0_def used_or_zero_def fun_eq_iff split: option.splits)
  have f: "foldl (\<lambda>tot license. dadd tot (js_of_int (g license))) acc ls
             = foldl dadd acc (map js_of_int (map g ls))" for g acc
    by (induction ls arbitrary: acc) simp_all
  show ?thesis
    by (simp add: utilizationRate_of_def Let_def f u js_sum_def)
qed

text \<open>
  C6, as amended. For seat counts whose absolute values add up to less than \<open>2^53\<close>,
  \<^verbatim>\<open>getLicenseMetrics().utilizationRate\<close> is 0 whenever the sum of \<^verbatim>\<open>totalSeats\<close> is 0 or
  negative, so the division is made by a positive sum only; otherwise it is
  \<^verbatim>\<open>Math.round((usedSeats / totalSeats) * 100)\<close> on the two sums (a null \<^verbatim>\<open>usedSeats\<close>
  counted as 0), the division and the multiplication being those of JavaScript numbers,
  each rounded to a double. The witness is the example of the specification, seats 10/10
  and 5/10: the rate is 75; and a total of -10 seats gives 0.
\<close>

theorem utilizationRate_guarded:
  assumes "sum_list (map (\<lambda>l. \<bar>totalSeats l\<bar>) ls) < 2 ^ 53"
    and "sum_list (map (\<lambda>l. \<bar>used_or_zero l\<bar>) ls) < 2 ^ 53"
  shows "utilizationRate_of ls =
     (if 0 < sum_list (map totalSeats ls)
      then Math_round (dmul (ddiv (js_of_int (sum_list (map used_or_zero ls)))
                                  (js_of_int (sum_list (map totalSeats ls)))) (js_of_int 100))
      else js_of_int 0)
    \<and> (getLicenseMetrics now s = Inr m \<longrightarrow>
         utilizationRate m = utilizationRate_of (getAllLicenses s))"
proof -
  have t: "sum_list (map abs (map totalSeats ls)) < 2 ^ 53"
    using assms(1) by (simp add: comp_def)
  have u: "sum_list (map abs (map used_or_zero ls)) < 2 ^ 53"
    using assms(2) by (simp add: comp_def)
  have "\<bar>sum_list (map totalSeats ls)\<bar> \<le> sum_list (map abs (map totalSeats ls))"
    by (rule sum_list_abs)
  with t have tb: "\<bar>sum_list (map totalSeats ls)\<bar> < 2 ^ 53" by simp
  have z: "js_of_int 0 = Fin 0 0"
    by (simp add: js_of_int_def round_scaled_def)
  have a: "utilizationRate_of ls =
     (if 0 < sum_list (map totalSeats ls)
      then Math_round (dmul (ddiv (js_of_int (sum_list (map used_or_zero ls)))
                                  (js_of_int (sum_list (map totalSeats ls)))) (js_of_int 100))
      else js_of_int 0)"
    unfolding utilizationRate_of_sums js_sum_ints [OF t] js_sum_ints [OF u]
      js_pos_js_of_int [OF tb] z
    by simp
  have b: "getLicenseMetrics now s = Inr m \<longrightarrow>
         utilizationRate m = utilizationRate_of (getAllLicenses s)"
    using getLicenseMetrics_fields [of now s m] by simp
  from a b show ?thesis by (rule conjI)
qed

theorem utilizationRate_guarded_witness:
  "sum_list (map (\<lambda>l. \<bar>totalSeats l\<bar>) example_metrics) < 2 ^ 53
   \<and> sum_list (map (\<lambda>l. \<bar>used_or_zero l\<bar>) example_metrics) < 2 ^ 53
   \<and> sum_list (map used_or_zero example_metrics) = 15
   \<and> sum_list (map totalSeats example_metrics) = 20
   \<and> utilizationRate_of example_metrics
       = Math_round (dmul (ddiv (js_of_int 15) (js_of_int 20)) (js_of_int 100))
   \<and> utilizationRate_of example_metrics = js_of_int 75
   \<and> utilizationRate_of [seated ''L1'' 5 (- 10)] = js_of_int 0"
proof -
  have a: "sum_list (map (\<lambda>l. \<bar>totalSeats l\<bar>) example_metrics) < 2 ^ 53"
    by code_simp
  have b: "sum_list (map (\<lambda>l. \<bar>used_or_zero l\<bar>) example_metrics) < 2 ^ 53"
    by code_simp
  have u: "sum_list (map used_or_zero example_metrics) = 15"
    by code_simp
  have t: "sum_list (map totalSeats example_metrics) = 20"
    by code_simp
  have r: "Math_round (dmul (ddiv (js_of_int 15) (js_of_int 20)) (js_of_int 100)) = js_of_int 75"
    by code_simp
  have e: "utilizationRate_of example_metrics
       = Math_round (dmul (ddiv (js_of_int 15) (js_of_int 20)) (js_of_int 100))"
    using utilizationRate_guarded [OF a b, THEN conjunct1] by (simp only: u t) simp
  have a': "sum_list (map (\<lambda>l. \<bar>totalSeats l\<bar>) [seated ''L1'' 5 (- 10)]) < 2 ^ 53"
    by code_simp
  have b': "sum_list (map (\<lambda>l. \<bar>used_or_zero l\<bar>) [seated ''L1'' 5 (- 10)]) < 2 ^ 53"
    by code_simp
  have t': "sum_list (map totalSeats [seated ''L1'' 5 (- 10)]) = - 10"
    by code_simp
  have n: "utilizationRate_of [seated ''L1'' 5 (- 10)] = js_of_int 0"
    using utilizationRate_guarded [OF a' b', THEN conjunct1] by (simp only: t') simp
  show ?thesis
    by (intro conjI) (rule a, rule b, rule u, rule t, rule e, simp only: e r, rule n)
qed

text \<open>
  C6 as stated reads the quotient as an exact one. One license with 23 of 40 seats used:
  23 / 40 * 100 is 57.5, which rounds to 58; the code computes 57.49999999999999 and
  returns 57.
\<close>

theorem utilizationRate_exact_counterexample:
  "utilizationRate_of [seated ''L1'' 23 40] = js_of_int 57
   \<and> utilizationRate_exact [seated ''L1'' 23 40] = 58
   \<and> js_of_int 57 \<noteq> js_of_int 58"
proof -
  have a: "utilizationRate_of [seated ''L1'' 23 40] = js_of_int 57"
    by code_simp
  have b: "utilizationRate_exact [seated ''L1'' 23 40] = 58"
    by code_simp
  have c: "js_of_int 57 \<noteq> js_of_int 58"
    by code_simp
  show ?thesis
    by (intro conjI) (rule a, rule b, rule c)
qed

subsection \<open>\<^verbatim>\<open>getDuplicateLicenses\<close>\<close>

lemma set_first_seen [simp]: "set (first_seen xs) = set xs"
  by (induction xs) auto

lemma first_seen_snoc:
  "first_seen (xs @ [x]) = (if x \<in> set xs then first_seen xs else first_seen xs @ [x])"
proof (induction xs)
  case Nil
  then show ?case by simp
next
  case (Cons y ys)
  show ?case
  proof (cases "x = y")
    case True
    have "filter (\<lambda>z. z \<noteq> y) (first_seen ys @ [y]) = filter (\<lambda>z. z \<noteq> y) (first_seen ys)"
      by simp
    with True Cons show ?thesis by (auto split: if_splits)
  next
    case False
    with Cons show ?thesis by auto
  qed
qed

lemma keys_grouping: "fst ` set (grouping u done) = group_key u ` set done"
  by (simp add: grouping_def image_image)

lemma members_snoc:
  "members u (done @ [l]) k = members u done k @ (if group_key u l = k then [l] else [])"
  by (simp add: members_def)

lemma grouping_snoc_old:
  assumes "group_key u l \<in> group_key u ` set done"
  shows "push_to (group_key u l) l (grouping u done) = grouping u (done @ [l])"
proof -
  have "first_seen (map (group_key u) (done @ [l])) = first_seen (map (group_key u) done)"
    using assms by (simp add: first_seen_snoc)
  then show ?thesis
    by (simp add: grouping_def push_to_def members_snoc)
qed

lemma push_to_absent: "k \<notin> fst ` set acc \<Longrightarrow> push_to k l acc = acc"
  by (induction acc) (auto simp: push_to_def)

lemma grouping_snoc_new:
  assumes "group_key u l \<notin> group_key u ` set done"
  shows "push_to (group_key u l) l (grouping u done @ [(group_key u l, [])]) = grouping u (done @ [l])"
proof -
  have f: "first_seen (map (group_key u) done @ [group_key u l])
             = first_seen (map (group_key u) done) @ [group_key u l]"
    using assms by (simp add: first_seen_snoc)
  have n: "\<forall>x\<in>set done. group_key u x \<noteq> group_key u l"
    using assms by (metis imageI)
  then have m: "members u done (group_key u l) = []"
    by (simp add: members_def filter_empty_conv)
  have a: "push_to (group_key u l) l (grouping u done) = grouping u done"
    using assms by (intro push_to_absent) (simp add: keys_grouping)
  have o: "map (\<lambda>k. (k, members u (done @ [l]) k)) (first_seen (map (group_key u) done))
            = map (\<lambda>k. (k, members u done k)) (first_seen (map (group_key u) done))"
    using n by (intro map_cong) (auto simp: members_snoc)
  have "push_to (group_key u l) l (grouping u done @ [(group_key u l, [])])
          = push_to (group_key u l) l (grouping u done) @ [(group_key u l, [l])]"
    by (simp add: push_to_def)
  also have "\<dots> = grouping u done @ [(group_key u l, [l])]"
    by (simp only: a)
  also have "\<dots> = map (\<lambda>k. (k, members u (done @ [l]) k)) (first_seen (map (group_key u) done))
                    @ [(group_key u l, members u (done @ [l]) (group_key u l))]"
    by (simp only: o grouping_def) (simp add: members_snoc m)
  also have "\<dots> = map (\<lambda>k. (k, members u (done @ [l]) k))
                      (first_seen (map (group_key u) done) @ [group_key u l])"
    by simp
  also have "\<dots> = grouping u (done @ [l])"
    by (simp only: grouping_def map_append list.map f)
  finally show ?thesis .
qed

lemma groupedBySoftware_grouping:
  "\<forall>l\<in>set rest. \<not> inherited (group_key u l) \<Longrightarrow>
     groupedBySoftware u rest (grouping u done) = Inr (grouping u (done @ rest))"
proof (induction rest arbitrary: "done")
  case Nil
  then show ?case by simp
next
  case (Cons l rest)
  have ni: "\<not> inherited (group_key u l)" and r: "\<forall>l\<in>set rest. \<not> inherited (group_key u l)"
    using Cons.prems by simp_all
  show ?case
  proof (cases "group_key u l \<in> group_key u ` set done")
    case True
    then have "groupedBySoftware u (l # rest) (grouping u done)
                 = groupedBySoftware u rest (grouping u (done @ [l]))"
      by (simp add: Let_def keys_grouping grouping_snoc_old group_key_def [symmetric])
    also have "\<dots> = Inr (grouping u ((done @ [l]) @ rest))"
      using r by (rule Cons.IH)
    finally show ?thesis by simp
  next
    case False
    then have "groupedBySoftware u (l # rest) (grouping u done)
                 = groupedBySoftware u rest (grouping u (done @ [l]))"
      using ni by (simp add: Let_def keys_grouping grouping_snoc_new group_key_def [symmetric])
    also have "\<dots> = Inr (grouping u ((done @ [l]) @ rest))"
      using r by (rule Cons.IH)
    finally show ?thesis by simp
  qed
qed

lemma insort_key_map_pair:
  "insort_key (\<lambda>(k, v). g k) (x, f x) (map (\<lambda>k. (k, f k)) xs)
     = map (\<lambda>k. (k, f k)) (insort_key g x xs)"
  by (induction xs) simp_all

lemma sort_key_map_pair:
  "sort_key (\<lambda>(k, v). g k) (map (\<lambda>k. (k, f k)) xs) = map (\<lambda>k. (k, f k)) (sort_key g xs)"
  by (induction xs) (simp_all add: insort_key_map_pair)

lemma filter_map_pair:
  "filter (\<lambda>(k, v). P k) (map (\<lambda>k. (k, f k)) xs) = map (\<lambda>k. (k, f k)) (filter P xs)"
  by (induction xs) simp_all

lemma Object_entries_map:
  "Object_entries (map (\<lambda>k. (k, f k)) ks) = map (\<lambda>k. (k, f k)) (entries_order ks)"
  by (simp add: Object_entries_def entries_order_def filter_map_pair sort_key_map_pair)

lemma filter_length_map:
  "filter (\<lambda>(softwareName, licenses). 1 < length licenses) (map (\<lambda>k. (k, f k)) ks)
     = map (\<lambda>k. (k, f k)) (filter (\<lambda>k. 1 < length (f k)) ks)"
  by (induction ks) simp_all

lemma getDuplicateLicenses_groups:
  assumes "\<forall>l\<in>set (licenses s). \<not> inherited (group_key u l)"
  shows "getDuplicateLicenses u s = Inr (duplicate_groups u (getAllLicenses s))"
proof -
  have "\<forall>l\<in>set (getAllLicenses s). \<not> inherited (group_key u l)"
    using assms by (simp add: getAllLicenses_def)
  from groupedBySoftware_grouping [OF this, of "[]"]
  have g: "groupedBySoftware u (getAllLicenses s) [] = Inr (grouping u (getAllLicenses s))"
    by (simp add: grouping_def)
  show ?thesis
    unfolding getDuplicateLicenses_def g
    by (simp only: sum.case grouping_def Object_entries_map filter_length_map
        duplicate_groups_def)
qed

lemma entries_order_no_index:
  "\<forall>k\<in>set ks. \<not> is_array_index k \<Longrightarrow> entries_order ks = ks"
  by (simp add: entries_order_def filter_empty_conv filter_id_conv)

text \<open>
  C4, as amended. When no software name lower-cases to \<^verbatim>\<open>constructor\<close> or \<^verbatim>\<open>__proto__\<close>,
  \<^verbatim>\<open>getDuplicateLicenses()\<close> groups all licenses (in \<^verbatim>\<open>getAllLicenses\<close> order) by their
  software name lower-cased as \<^verbatim>\<open>toLowerCase()\<close> does it, whatever the case mapping \<open>u\<close> of
  Unicode is for names beyond ASCII, and returns the groups of two or more members, each
  under its lower-cased key. The groups whose key is an array index (the decimal form of an
  integer from 0 to 2^32 - 2) come first, by ascending number, and the others follow in the
  order their keys are first seen; when no key is an array index this is first-seen order.
  The witness is the example of the specification: for Zoom, zoom and Slack the result is
  the one group \<^verbatim>\<open>zoom\<close> with its two members.
\<close>

theorem getDuplicateLicenses_grouping:
  "((\<forall>l\<in>set (licenses s). \<not> inherited (group_key u l)) \<longrightarrow>
      getDuplicateLicenses u s = Inr (duplicate_groups u (getAllLicenses s)))
   \<and> ((\<forall>l\<in>set (licenses s). \<not> inherited (group_key u l) \<and> \<not> is_array_index (group_key u l)) \<longrightarrow>
      getDuplicateLicenses u s = Inr (duplicates_first_seen u (getAllLicenses s)))"
proof (intro conjI impI)
  assume "\<forall>l\<in>set (licenses s). \<not> inherited (group_key u l)"
  then show "getDuplicateLicenses u s = Inr (duplicate_groups u (getAllLicenses s))"
    by (rule getDuplicateLicenses_groups)
next
  assume a: "\<forall>l\<in>set (licenses s). \<not> inherited (group_key u l) \<and> \<not> is_array_index (group_key u l)"
  then have "\<forall>k\<in>set (first_seen (map (group_key u) (getAllLicenses s))). \<not> is_array_index k"
    by (auto simp: getAllLicenses_def)
  then have "duplicate_groups u (getAllLicenses s) = duplicates_first_seen u (getAllLicenses s)"
    by (simp add: duplicate_groups_def duplicates_first_seen_def entries_order_no_index)
  moreover have "getDuplicateLicenses u s = Inr (duplicate_groups u (getAllLicenses s))"
    using a by (intro getDuplicateLicenses_groups) simp
  ultimately show "getDuplicateLicenses u s = Inr (duplicates_first_seen u (getAllLicenses s))"
    by simp
qed

theorem getDuplicateLicenses_grouping_witness:
  "list_all (\<lambda>l. \<not> inherited (group_key latin1_lower l) \<and> \<not> is_array_index (group_key latin1_lower l))
     (licenses (example_store example_names))
   \<and> getDuplicateLicenses latin1_lower (example_store example_names)
       = Inr [(''zoom'', [named ''L1'' ''Zoom'' 1700000000003, named ''L2'' ''zoom'' 1700000000002])]
   \<and> duplicates_first_seen latin1_lower (getAllLicenses (example_store example_names))
       = [(''zoom'', [named ''L1'' ''Zoom'' 1700000000003, named ''L2'' ''zoom'' 1700000000002])]"
proof -
  have h: "\<forall>l\<in>set (licenses (example_store example_names)).
       \<not> inherited (group_key latin1_lower l) \<and> \<not> is_array_index (group_key latin1_lower l)"
    by code_simp
  have d: "duplicates_first_seen latin1_lower (getAllLicenses (example_store example_names))
       = [(''zoom'', [named ''L1'' ''Zoom'' 1700000000003, named ''L2'' ''zoom'' 1700000000002])]"
    by code_simp
  have g: "getDuplicateLicenses latin1_lower (example_store example_names)
       = Inr (duplicates_first_seen latin1_lower (getAllLicenses (example_store example_names)))"
    using getDuplicateLicenses_grouping [of "example_store example_names" latin1_lower,
        THEN conjunct2] h
    by (rule mp)
  have h': "list_all (\<lambda>l. \<not> inherited (group_key latin1_lower l)
                          \<and> \<not> is_array_index (group_key latin1_lower l))
     (licenses (example_store example_names))"
    using h by (simp only: list_all_iff)
  show ?thesis
    by (intro conjI) (rule h', simp only: g d, rule d)
qed

text \<open>
  C4 as stated keeps the group keys in first-seen order. Licenses named Zoom, zoom, 2048
  and 2048, listed in this order by \<^verbatim>\<open>getAllLicenses\<close>: the key \<^verbatim>\<open>zoom\<close> is seen first, and
  the result lists the group \<^verbatim>\<open>2048\<close> first. (The names are ASCII, so that the case mapping
  beyond ASCII plays no part.)
\<close>

theorem getDuplicateLicenses_order_counterexample:
  "getDuplicateLicenses latin1_lower (example_store example_numbers)
     = Inr [(''2048'', [named ''L3'' ''2048'' 1700000000002, named ''L4'' ''2048'' 1700000000001]),
            (''zoom'', [named ''L1'' ''Zoom'' 1700000000004, named ''L2'' ''zoom'' 1700000000003])]
   \<and> duplicates_first_seen latin1_lower (getAllLicenses (example_store example_numbers))
     = [(''zoom'', [named ''L1'' ''Zoom'' 1700000000004, named ''L2'' ''zoom'' 1700000000003]),
        (''2048'', [named ''L3'' ''2048'' 1700000000002, named ''L4'' ''2048'' 1700000000001])]
   \<and> map (toLowerCase latin1_lower \<circ> softwareName) (getAllLicenses (example_store example_numbers))
     = [''zoom'', ''zoom'', ''2048'', ''2048'']"
proof -
  have a: "getDuplicateLicenses latin1_lower (example_store example_numbers)
     = Inr [(''2048'', [named ''L3'' ''2048'' 1700000000002, named ''L4'' ''2048'' 1700000000001]),
            (''zoom'', [named ''L1'' ''Zoom'' 1700000000004, named ''L2'' ''zoom'' 1700000000003])]"
    by code_simp
  have b: "duplicates_first_seen latin1_lower (getAllLicenses (example_store example_numbers))
     = [(''zoom'', [named ''L1'' ''Zoom'' 1700000000004, named ''L2'' ''zoom'' 1700000000003]),
        (''2048'', [named ''L3'' ''2048'' 1700000000002, named ''L4'' ''2048'' 1700000000001])]"
    by code_simp
  have c: "map (toLowerCase latin1_lower \<circ> softwareName) (getAllLicenses (example_store example_numbers))
     = [''zoom'', ''zoom'', ''2048'', ''2048'']"
    by code_simp
  show ?thesis
    by (intro conjI) (rule a, rule b, rule c)
qed

text \<open>
  A license named \<^verbatim>\<open>Constructor\<close> makes the call throw: \<^verbatim>\<open>acc["constructor"]\<close> is the
  inherited function, which has no \<^verbatim>\<open>push\<close>.
\<close>

lemma getDuplicateLicenses_inherited_name:
  "getDuplicateLicenses u (example_store [named ''L1'' ''Constructor'' 1700000000001])
     = Inl TypeError"
proof -
  have k1: "list_all is_ascii ''Constructor''"
    by code_simp
  have k2: "map lower_char ''Constructor'' = ''constructor''"
    by code_simp
  have k: "toLowerCase u ''Constructor'' = ''constructor''"
    using k1 k2 by (simp only: toLowerCase_def if_True)
  have a: "getAllLicenses (example_store [named ''L1'' ''Constructor'' 1700000000001])
             = [named ''L1'' ''Constructor'' 1700000000001]"
    by (simp add: getAllLicenses_def example_store_def)
  have n: "softwareName (named ''L1'' ''Constructor'' 1700000000001) = ''Constructor''"
    by (simp add: named_def)
  show ?thesis
    by (simp add: getDuplicateLicenses_def a n k inherited_def)
qed

text \<open>
  Names beyond ASCII: the name with the initial U+00C9 and the name with the initial U+00E9
  lower-case to the same key and make one group, and a name in ASCII lower-cases the same
  way whatever the case mapping beyond ASCII is.
\<close>

lemma getDuplicateLicenses_accented:
  "toLowerCase latin1_lower Emile = emile"
  "getDuplicateLicenses latin1_lower
     (example_store [named ''L1'' Emile 1700000000002, named ''L2'' emile 1700000000001])
     = Inr [(emile, [named ''L1'' Emile 1700000000002, named ''L2'' emile 1700000000001])]"
  by code_simp+

lemma toLowerCase_ascii:
  "list_all is_ascii v \<Longrightarrow> toLowerCase u v = map lower_char v"
  by (simp add: toLowerCase_def)

subsection \<open>\<^verbatim>\<open>POST /api/licenses\<close>\<close>

lemma createLicense_defaults:
  "createLicense drv newId now license s = (Inr l, s') \<Longrightarrow>
     status l = Some ''active'' \<and> usedSeats l = Some 0 \<and> license_id l = newId
     \<and> numeric_10_2 (Number_toString (il_cost license)) = Inr (cost l)
     \<and> licenses s' = licenses s @ [l]"
  by (auto simp: createLicense_def Let_def split: sum.splits option.splits if_splits prod.splits)


lemma post_created:
  assumes a: "post_licenses_route drv vid lid now b s = (Response c x, s')"
  shows "c = 201 \<and> (\<exists>l d (v::Vendor) s1. x = Some l \<and> insertLicenseSchema_parse b = Inr d
     \<and> createLicense drv lid now (d\<lparr>il_vendorId := vendor_id v\<rparr>) s1 = (Inr l, s'))"
proof -
  obtain d where d: "insertLicenseSchema_parse b = Inr d"
    using a by (cases "insertLicenseSchema_parse b") (simp_all add: post_licenses_route_def)
  obtain name where n: "vendorName_of drv b = Some name"
    using a d by (cases "vendorName_of drv b") (simp_all add: post_licenses_route_def)
  obtain rv s1 where g: "getOrCreateVendor vid now name s = (rv, s1)"
    by (cases "getOrCreateVendor vid now name s")
  obtain v where v: "rv = Inr v"
    using a d n g by (cases rv) (simp_all add: post_licenses_route_def)
  obtain rl s2 where cl:
    "createLicense drv lid now (d\<lparr>il_vendorId := vendor_id v\<rparr>) s1 = (rl, s2)"
    by (cases "createLicense drv lid now (d\<lparr>il_vendorId := vendor_id v\<rparr>) s1")
  obtain l where l: "rl = Inr l"
    using a d n g v cl by (cases rl) (simp_all add: post_licenses_route_def)
  have r: "c = 201" "x = Some l" "s2 = s'"
    using a d n g v cl l by (simp_all add: post_licenses_route_def)
  have cl': "createLicense drv lid now (d\<lparr>il_vendorId := vendor_id v\<rparr>) s1 = (Inr l, s')"
    using cl l r(3) by simp
  have "\<exists>l d (v::Vendor) s1. x = Some l \<and> insertLicenseSchema_parse b = Inr d
     \<and> createLicense drv lid now (d\<lparr>il_vendorId := vendor_id v\<rparr>) s1 = (Inr l, s')"
    by (rule exI [of _ l], rule exI [of _ d], rule exI [of _ v], rule exI [of _ s1])
      (simp add: r(2) d cl')
  with r(1) show ?thesis by simp
qed

lemma agree_parse:
  assumes "\<forall>k. k \<noteq> ''status'' \<and> k \<noteq> ''usedSeats'' \<longrightarrow> b1 k = b2 k"
  shows "insertLicenseSchema_parse b1 = insertLicenseSchema_parse b2"
    and "vendorName_of drv b1 = vendorName_of drv b2"
proof -
  have k: "b1 k = b2 k" if "k \<noteq> ''status''" "k \<noteq> ''usedSeats''" for k
    using assms that by simp
  have r: "required_string b1 k = required_string b2 k"
    "optional_string b1 k = optional_string b2 k" if "k \<noteq> ''status''" "k \<noteq> ''usedSeats''" for k
    using k [OF that] by (simp_all add: required_string_def optional_string_def)
  show "insertLicenseSchema_parse b1 = insertLicenseSchema_parse b2"
    unfolding insertLicenseSchema_parse_def by (simp add: r)
  show "vendorName_of drv b1 = vendorName_of drv b2"
    unfolding vendorName_of_def by (simp add: k)
qed

text \<open>
  C9. On license creation \<^verbatim>\<open>status\<close> and \<^verbatim>\<open>usedSeats\<close> are assigned by the server and never
  taken from the client: two request bodies that differ only in their \<^verbatim>\<open>status\<close> and
  \<^verbatim>\<open>usedSeats\<close> fields get the same response and leave the same store, and every created
  license (the row the route answers with, and the row \<^verbatim>\<open>createLicense\<close> returns) has
  status \<^verbatim>\<open>"active"\<close> and 0 used seats.
\<close>

theorem post_licenses_server_assigned:
  "((\<forall>k. k \<noteq> ''status'' \<and> k \<noteq> ''usedSeats'' \<longrightarrow> b1 k = b2 k) \<longrightarrow>
      post_licenses_route drv vid lid now b1 s = post_licenses_route drv vid lid now b2 s)
   \<and> (post_licenses_route drv vid lid now b s = (Response c x, s') \<longrightarrow>
      (\<exists>l. x = Some l \<and> status l = Some ''active'' \<and> usedSeats l = Some 0 \<and> l \<in> set (licenses s')))
   \<and> (createLicense drv lid now license s = (Inr l, s') \<longrightarrow>
      status l = Some ''active'' \<and> usedSeats l = Some 0)"
proof -
  have a: "(\<forall>k. k \<noteq> ''status'' \<and> k \<noteq> ''usedSeats'' \<longrightarrow> b1 k = b2 k) \<longrightarrow>
      post_licenses_route drv vid lid now b1 s = post_licenses_route drv vid lid now b2 s"
  proof
    assume h: "\<forall>k. k \<noteq> ''status'' \<and> k \<noteq> ''usedSeats'' \<longrightarrow> b1 k = b2 k"
    have p: "insertLicenseSchema_parse b1 = insertLicenseSchema_parse b2"
      using h by (rule agree_parse)
    have v: "vendorName_of drv b1 = vendorName_of drv b2"
      using h by (rule agree_parse)
    show "post_licenses_route drv vid lid now b1 s = post_licenses_route drv vid lid now b2 s"
      unfolding post_licenses_route_def p v by (rule refl)
  qed
  have b: "post_licenses_route drv vid lid now b s = (Response c x, s') \<longrightarrow>
      (\<exists>l. x = Some l \<and> status l = Some ''active'' \<and> usedSeats l = Some 0 \<and> l \<in> set (licenses s'))"
  proof
    assume "post_licenses_route drv vid lid now b s = (Response c x, s')"
    from post_created [OF this] obtain l d s1 and v :: Vendor where
      "x = Some l" "createLicense drv lid now (d\<lparr>il_vendorId := vendor_id v\<rparr>) s1 = (Inr l, s')"
      by blast
    with createLicense_defaults [of drv lid now "d\<lparr>il_vendorId := vendor_id v\<rparr>" s1 l s']
    show "\<exists>l. x = Some l \<and> status l = Some ''active'' \<and> usedSeats l = Some 0 \<and> l \<in> set (licenses s')"
      by simp
  qed
  have c: "createLicense drv lid now license s = (Inr l, s') \<longrightarrow>
      status l = Some ''active'' \<and> usedSeats l = Some 0"
    using createLicense_defaults [of drv lid now license s l s'] by simp
  from a b c show ?thesis by blast
qed

theorem post_licenses_server_assigned_witness:
  "post_licenses_route example_driver ''V9'' ''L9'' 1700000000000
        (map_of ((''status'', JStr ''cancelled'') # (''usedSeats'', JNum (js_of_int 99))
                 # example_fields ''120.00'')) (example_store [])
      = (Response 201 (Some (example_created 12000)), example_store [example_created 12000])
   \<and> post_licenses_route example_driver ''V9'' ''L9'' 1700000000000
        (map_of (example_fields ''120.00'')) (example_store [])
      = (Response 201 (Some (example_created 12000)), example_store [example_created 12000])
   \<and> status (example_created 12000) = Some ''active''
   \<and> usedSeats (example_created 12000) = Some 0"
proof -
  let ?b1 = "map_of (example_fields ''120.00'')"
  let ?b2 = "map_of ((''status'', JStr ''cancelled'') # (''usedSeats'', JNum (js_of_int 99))
                 # example_fields ''120.00'')"
  have h: "\<forall>k. k \<noteq> ''status'' \<and> k \<noteq> ''usedSeats'' \<longrightarrow> ?b1 k = ?b2 k"
    by simp
  have r: "post_licenses_route example_driver ''V9'' ''L9'' 1700000000000 ?b2 (example_store [])
      = (Response 201 (Some (example_created 12000)), example_store [example_created 12000])"
    by code_simp
  have d: "status (example_created 12000) = Some ''active''"
    "usedSeats (example_created 12000) = Some 0"
    by (simp_all add: example_created_def)
  have t: "post_licenses_route example_driver ''V9'' ''L9'' 1700000000000 ?b1 (example_store [])
      = post_licenses_route example_driver ''V9'' ''L9'' 1700000000000 ?b2 (example_store [])"
    using post_licenses_server_assigned [of ?b1 ?b2 example_driver "''V9''" "''L9''"
        1700000000000 "example_store []", THEN conjunct1] h
    by (rule mp)
  have r1: "post_licenses_route example_driver ''V9'' ''L9'' 1700000000000 ?b1 (example_store [])
      = (Response 201 (Some (example_created 12000)), example_store [example_created 12000])"
    using t r by (rule trans)
  show ?thesis
    by (intro conjI) (rule r, rule r1, rule d(1), rule d(2))
qed



text \<open>
  A cost string that starts with a no-break space (U+00A0, the bytes C2 A0): \<^verbatim>\<open>parseFloat\<close>
  skips it, and the cost 12.5 is stored as 12.50.
\<close>

lemma post_licenses_cost_white_space:
  "post_licenses_route example_driver ''V9'' ''L9'' 1700000000000
        (map_of (example_fields ([CHR 0xC2, CHR 0xA0] @ ''12.5''))) (example_store [])
      = (Response 201 (Some (example_created 1250)), example_store [example_created 1250])"
  by code_simp

text \<open>
  The stored cost for cost strings of several kinds (a number too large for the column and
  an infinity are refused, a string without a number is stored as \<open>NaN\<close>), and the decimal
  value of the string rounded to two places, with which it agrees on the first six.
\<close>

lemma stored_cost_examples:
  "map (\<lambda>c. numeric_10_2 (Number_toString (parseFloat c)))
     [''0.1'', ''19.99'', ''1234567.89'', ''99999999.99'', ''0.005'', ''1e3'', ''abc'', ''1e8'',
      ''-5'', ''Infinity'']
   = [Inr (PgDec 10), Inr (PgDec 1999), Inr (PgDec 123456789), Inr (PgDec 9999999999),
      Inr (PgDec 1), Inr (PgDec 100000), Inr PgNaN, Inl DataException, Inr (PgDec (- 500)),
      Inl DataException]"
  "map decimal_cents [''0.1'', ''19.99'', ''1234567.89'', ''99999999.99'', ''0.005'', ''1e3'']
   = [Some 10, Some 1999, Some 123456789, Some 9999999999, Some 1, Some 100000]"
  by code_simp+


end
